theory Spec2Isabelle
  imports Main
begin

section \<open>The KeptnWorkloadInstance controller\<close>

text \<open>
  A shallow embedding of \<^verbatim>\<open>operator/controllers/keptnworkloadinstance_controller.go\<close>:
  the reconciler's \<^verbatim>\<open>Reconcile\<close>, \<^verbatim>\<open>generateSuffix\<close>, \<^verbatim>\<open>startPreDeploymentChecks\<close>,
  \<^verbatim>\<open>generateK8sEvent\<close> and \<^verbatim>\<open>getPreDeploymentChecksEvent\<close>. The cluster's objects, the
  pending failures of the object store, the identifier source and the clock are one
  explicit state that every call takes and returns.
\<close>

subsection \<open>Data model\<close>

text \<open>
  \<^verbatim>\<open>metav1.ObjectMeta\<close>, with the fields the controller sets or reads.
  \<^verbatim>\<open>Annotations\<close> is a Go \<^verbatim>\<open>map[string]string\<close>.
\<close>

record ObjectMeta =
  Name :: string
  GenerateName :: string
  Namespace :: string
  ResourceVersion :: string
  Annotations :: "string \<rightharpoonup> string"

text \<open>
  Modelled from the spec: the type declarations of package \<^verbatim>\<open>klcv1alpha1\<close> are not part
  of the controller's file. \<^verbatim>\<open>EventSpec\<close> has the three fields the controller fills in: the
  service name, the application name and the task payload \<^verbatim>\<open>JobSpec\<close>, which is opaque and
  "copied verbatim from WorkloadInstance spec".
\<close>

type_synonym JobSpec = string

record EventSpec =
  Service :: string
  Application :: string
  JobSpec :: JobSpec

text \<open>
  Modelled from the spec: the phase of a Check Task is one of Pending, Running, Succeeded,
  Failed. It is a Go string type; each constant carries the phase name of the spec, and
  the zero value of the type is the empty string.
\<close>

type_synonym EventPhase = string

definition EventPending :: EventPhase where "EventPending = ''Pending''"
definition EventRunning :: EventPhase where "EventRunning = ''Running''"
definition EventSucceeded :: EventPhase where "EventSucceeded = ''Succeeded''"
definition EventFailed :: EventPhase where "EventFailed = ''Failed''"

record EventStatus =
  Phase :: EventPhase

text \<open>
  Modelled from the spec: \<^verbatim>\<open>klcv1alpha1.Event\<close>, the Check Task, with its metadata, spec and
  status.
\<close>

record Event =
  Event_ObjectMeta :: ObjectMeta
  Event_Spec :: EventSpec
  Event_Status :: EventStatus

text \<open>
  Modelled from the spec: the phase of a WorkloadInstance is one of NotStarted, Running,
  Succeeded, Failed. It is a Go string type (the controller converts it with
  \<^verbatim>\<open>string(...)\<close>); each constant carries the phase name of the spec.
\<close>

type_synonym KeptnWorkloadInstancePhase = string

definition WorkloadInstanceNotStarted :: KeptnWorkloadInstancePhase where
  "WorkloadInstanceNotStarted = ''NotStarted''"
definition WorkloadInstanceRunning :: KeptnWorkloadInstancePhase where
  "WorkloadInstanceRunning = ''Running''"
definition WorkloadInstanceSucceeded :: KeptnWorkloadInstancePhase where
  "WorkloadInstanceSucceeded = ''Succeeded''"
definition WorkloadInstanceFailed :: KeptnWorkloadInstancePhase where
  "WorkloadInstanceFailed = ''Failed''"

text \<open>
  Modelled from the spec: \<^verbatim>\<open>klcv1alpha1.KeptnWorkloadInstance\<close>, with the fields the
  controller reads and writes (\<^verbatim>\<open>Kind\<close>, the metadata, \<^verbatim>\<open>Spec.AppName\<close>,
  \<^verbatim>\<open>Spec.PreDeploymentCheck.JobSpec\<close>, \<^verbatim>\<open>Status.PreDeploymentPhase\<close>,
  \<^verbatim>\<open>Status.PreDeploymentTaskName\<close>) and the post-deployment check definition, phase and
  task name of the spec's data model.
\<close>

record KeptnWorkloadInstanceSpec =
  AppName :: string
  PreDeploymentCheck :: EventSpec
  PostDeploymentCheck :: EventSpec

record KeptnWorkloadInstanceStatus =
  PreDeploymentPhase :: KeptnWorkloadInstancePhase
  PostDeploymentPhase :: KeptnWorkloadInstancePhase
  PreDeploymentTaskName :: string
  PostDeploymentTaskName :: string

record KeptnWorkloadInstance =
  Kind :: string
  ObjectMeta :: ObjectMeta
  Spec :: KeptnWorkloadInstanceSpec
  Status :: KeptnWorkloadInstanceStatus

text \<open>
  The methods of package \<^verbatim>\<open>klcv1alpha1\<close> that \<^verbatim>\<open>Reconcile\<close> calls are parameters of the
  model: \<^verbatim>\<open>KeptnWorkloadInstance.IsCompleted\<close>,
  \<^verbatim>\<open>KeptnWorkloadInstance.IsDeploymentCheckNotCreated\<close> and \<^verbatim>\<open>Event.IsCompleted\<close>.
\<close>

record klcv1alpha1 =
  IsCompleted :: "KeptnWorkloadInstance \<Rightarrow> bool"
  IsDeploymentCheckNotCreated :: "KeptnWorkloadInstance \<Rightarrow> bool"
  Event_IsCompleted :: "Event \<Rightarrow> bool"

text \<open>A phase is terminal when it is Succeeded or Failed.\<close>

definition isTerminal :: "KeptnWorkloadInstancePhase \<Rightarrow> bool" where
  "isTerminal p \<longleftrightarrow> p = WorkloadInstanceSucceeded \<or> p = WorkloadInstanceFailed"

text \<open>
  Modelled from the spec: the three methods as the spec words them.
  \<^verbatim>\<open>IsCompleted\<close> of a WorkloadInstance is "true iff both phases are terminal (Succeeded or
  Failed)"; a Check Task is created "if the active direction's phase is NotStarted";
  \<^verbatim>\<open>IsCompleted\<close> of a Check Task is "true iff Succeeded or Failed".
\<close>

definition specApi :: klcv1alpha1 where
  "specApi =
    \<lparr> IsCompleted = (\<lambda>i. isTerminal (PreDeploymentPhase (Status i)) \<and>
                          isTerminal (PostDeploymentPhase (Status i))),
      IsDeploymentCheckNotCreated =
        (\<lambda>i. PreDeploymentPhase (Status i) = WorkloadInstanceNotStarted),
      Event_IsCompleted =
        (\<lambda>e. Phase (Event_Status e) = EventSucceeded \<or> Phase (Event_Status e) = EventFailed) \<rparr>"

text \<open>\<^verbatim>\<open>corev1.ObjectReference\<close> and \<^verbatim>\<open>corev1.Event\<close> (the audit event).\<close>

record ObjectReference =
  Ref_Kind :: string
  Ref_Namespace :: string
  Ref_Name :: string

record K8sEvent =
  K8s_ObjectMeta :: ObjectMeta
  InvolvedObject :: ObjectReference
  Reason :: string
  Message :: string
  Source_Component :: string
  Type :: string
  EventTime :: nat
  FirstTimestamp :: nat
  LastTimestamp :: nat
  Action :: string
  ReportingController :: string
  ReportingInstance :: string

subsection \<open>The object store\<close>

text \<open>
  The object store client is an interface the controller is given (\<^verbatim>\<open>client.Client\<close>):
  \<^verbatim>\<open>Get\<close> answers with the object, NotFound or another error, \<^verbatim>\<open>Create\<close> with
  AlreadyExists or another error when it fails, \<^verbatim>\<open>Delete\<close> with NotFound or another
  error, and the status \<^verbatim>\<open>Update\<close> with an error such as a conflict. Each call below
  first takes the outcome scripted for it, so that any call can fail with any error, and
  otherwise answers from the stored objects.
\<close>

text \<open>
  The errors of the object store client: the two the controller tests for
  (\<^verbatim>\<open>errors.IsNotFound\<close>, \<^verbatim>\<open>errors.IsAlreadyExists\<close>) and the other failures a call can
  report.
\<close>

datatype storeError = NotFound | AlreadyExists | Conflict | Unavailable | Forbidden | Canceled

text \<open>\<^verbatim>\<open>types.NamespacedName\<close>: namespace and name.\<close>

type_synonym NamespacedName = "string \<times> string"

text \<open>
  The state: the stored WorkloadInstances and Check Tasks by namespace and name, the
  audit events in the order of their creation, the outcome scripted for each coming call
  of the store (\<open>Some e\<close>: the call fails with \<open>e\<close> and changes nothing; \<open>None\<close>, or
  no entry left: the store answers from its contents), the identifiers \<^verbatim>\<open>uuid.New()\<close>
  hands out in turn, and the readings \<^verbatim>\<open>time.Now()\<close> returns in turn.
\<close>

record world =
  workloadInstances :: "NamespacedName \<rightharpoonup> KeptnWorkloadInstance"
  events :: "NamespacedName \<rightharpoonup> Event"
  k8sEvents :: "K8sEvent list"
  faults :: "storeError option list"
  uuidSource :: "nat \<Rightarrow> string"
  uuidsDrawn :: nat
  clock :: "nat \<Rightarrow> nat"
  clockReads :: nat

definition nextFault :: "world \<Rightarrow> storeError option \<times> world" where
  "nextFault w =
    (case faults w of
       [] \<Rightarrow> (None, w)
     | f # fs \<Rightarrow> (f, w\<lparr>faults := fs\<rparr>))"

definition keyOf :: "ObjectMeta \<Rightarrow> NamespacedName" where
  "keyOf m = (Namespace m, Name m)"

definition Get_KeptnWorkloadInstance ::
  "world \<Rightarrow> NamespacedName \<Rightarrow> (storeError + KeptnWorkloadInstance) \<times> world" where
  "Get_KeptnWorkloadInstance w k =
    (case nextFault w of
       (Some e, w') \<Rightarrow> (Inl e, w')
     | (None, w') \<Rightarrow>
         (case workloadInstances w' k of
            None \<Rightarrow> (Inl NotFound, w')
          | Some i \<Rightarrow> (Inr i, w')))"

definition Get_Event :: "world \<Rightarrow> NamespacedName \<Rightarrow> (storeError + Event) \<times> world" where
  "Get_Event w k =
    (case nextFault w of
       (Some e, w') \<Rightarrow> (Inl e, w')
     | (None, w') \<Rightarrow>
         (case events w' k of
            None \<Rightarrow> (Inl NotFound, w')
          | Some t \<Rightarrow> (Inr t, w')))"

definition Create_Event :: "world \<Rightarrow> Event \<Rightarrow> storeError option \<times> world" where
  "Create_Event w t =
    (case nextFault w of
       (Some e, w') \<Rightarrow> (Some e, w')
     | (None, w') \<Rightarrow>
         (case events w' (keyOf (Event_ObjectMeta t)) of
            Some _ \<Rightarrow> (Some AlreadyExists, w')
          | None \<Rightarrow> (None, w'\<lparr>events := (events w')(keyOf (Event_ObjectMeta t) \<mapsto> t)\<rparr>)))"

definition Delete_Event :: "world \<Rightarrow> Event \<Rightarrow> storeError option \<times> world" where
  "Delete_Event w t =
    (case nextFault w of
       (Some e, w') \<Rightarrow> (Some e, w')
     | (None, w') \<Rightarrow>
         (case events w' (keyOf (Event_ObjectMeta t)) of
            None \<Rightarrow> (Some NotFound, w')
          | Some _ \<Rightarrow> (None, w'\<lparr>events := (events w')(keyOf (Event_ObjectMeta t) := None)\<rparr>)))"

text \<open>
  The audit event is created under \<^verbatim>\<open>GenerateName\<close>: the store picks its name, so no
  name conflict arises from the store's contents.
\<close>

definition Create_K8sEvent :: "world \<Rightarrow> K8sEvent \<Rightarrow> storeError option \<times> world" where
  "Create_K8sEvent w e =
    (case nextFault w of
       (Some err, w') \<Rightarrow> (Some err, w')
     | (None, w') \<Rightarrow> (None, w'\<lparr>k8sEvents := k8sEvents w' @ [e]\<rparr>))"

text \<open>
  \<^verbatim>\<open>r.Status().Update\<close>: the status-only update. It replaces the status of the stored
  object of that namespace and name and nothing else of it.
\<close>

definition Status_Update :: "world \<Rightarrow> KeptnWorkloadInstance \<Rightarrow> storeError option \<times> world" where
  "Status_Update w i =
    (case nextFault w of
       (Some e, w') \<Rightarrow> (Some e, w')
     | (None, w') \<Rightarrow>
         (case workloadInstances w' (keyOf (ObjectMeta i)) of
            None \<Rightarrow> (Some NotFound, w')
          | Some stored \<Rightarrow>
              (None, w'\<lparr>workloadInstances :=
                 (workloadInstances w')(keyOf (ObjectMeta i) \<mapsto> stored\<lparr>Status := Status i\<rparr>)\<rparr>)))"

definition timeNow :: "world \<Rightarrow> nat \<times> world" where
  "timeNow w = (clock w (clockReads w), w\<lparr>clockReads := Suc (clockReads w)\<rparr>)"

subsection \<open>The controller\<close>

text \<open>
  \<^verbatim>\<open>generateSuffix\<close>: \<^verbatim>\<open>uuid.New().String()\<close> has 36 characters, so \<^verbatim>\<open>uid[:10]\<close> is
  always in range.
\<close>

definition generateSuffix :: "world \<Rightarrow> string \<times> world" where
  "generateSuffix w =
    (let uid = uuidSource w (uuidsDrawn w)
     in (take 10 uid, w\<lparr>uuidsDrawn := Suc (uuidsDrawn w)\<rparr>))"

text \<open>
  The loop of \<^verbatim>\<open>startPreDeploymentChecks\<close>; the first argument is the number of
  iterations left, \<^verbatim>\<open>5 - i\<close>. When none is left the loop ends and the function returns
  \<^verbatim>\<open>event.Name, nil\<close>, as it does after \<^verbatim>\<open>break\<close>.
\<close>

fun createLoop ::
  "nat \<Rightarrow> world \<Rightarrow> KeptnWorkloadInstance \<Rightarrow> Event \<Rightarrow> (storeError + string) \<times> world" where
  "createLoop 0 w workloadInstance event = (Inr (Name (Event_ObjectMeta event)), w)"
| "createLoop (Suc n) w workloadInstance event =
    (case Create_Event w event of
       (Some err, w') \<Rightarrow>
         if err = AlreadyExists then
           (case generateSuffix w' of
              (suffix, w'') \<Rightarrow>
                createLoop n w'' workloadInstance
                  (event\<lparr>Event_ObjectMeta := (Event_ObjectMeta event)
                     \<lparr>Name := Name (ObjectMeta workloadInstance) @ ''-'' @ suffix\<rparr>\<rparr>))
         else (Inl err, w')
     | (None, w') \<Rightarrow> (Inr (Name (Event_ObjectMeta event)), w'))"

definition startPreDeploymentChecks ::
  "world \<Rightarrow> KeptnWorkloadInstance \<Rightarrow> (storeError + string) \<times> world" where
  "startPreDeploymentChecks w workloadInstance =
    (case generateSuffix w of
       (suffix, w') \<Rightarrow>
         createLoop 5 w' workloadInstance
           \<lparr> Event_ObjectMeta =
               \<lparr> Name = Name (ObjectMeta workloadInstance) @ ''-'' @ suffix,
                 GenerateName = '''',
                 Namespace = Namespace (ObjectMeta workloadInstance),
                 ResourceVersion = '''',
                 Annotations = Annotations (ObjectMeta workloadInstance) \<rparr>,
             Event_Spec =
               \<lparr> Service = Name (ObjectMeta workloadInstance),
                 Application = AppName (Spec workloadInstance),
                 JobSpec = JobSpec (PreDeploymentCheck (Spec workloadInstance)) \<rparr>,
             Event_Status = \<lparr> Phase = '''' \<rparr> \<rparr>)"

text \<open>
  \<^verbatim>\<open>generateK8sEvent\<close>: the composite literal reads the clock three times, in the order
  of its fields.
\<close>

definition generateK8sEvent :: "world \<Rightarrow> KeptnWorkloadInstance \<Rightarrow> string \<Rightarrow> K8sEvent \<times> world" where
  "generateK8sEvent w workloadInstance eventType =
    (case timeNow w of (t1, w1) \<Rightarrow>
     case timeNow w1 of (t2, w2) \<Rightarrow>
     case timeNow w2 of (t3, w3) \<Rightarrow>
       (\<lparr> K8s_ObjectMeta =
            \<lparr> Name = '''',
              GenerateName = Name (ObjectMeta workloadInstance) @ ''-'' @ eventType @ ''-'',
              Namespace = Namespace (ObjectMeta workloadInstance),
              ResourceVersion = ''v1alpha1'',
              Annotations = Annotations (ObjectMeta workloadInstance) \<rparr>,
          InvolvedObject =
            \<lparr> Ref_Kind = Kind workloadInstance,
              Ref_Namespace = Namespace (ObjectMeta workloadInstance),
              Ref_Name = Name (ObjectMeta workloadInstance) \<rparr>,
          Reason = PreDeploymentPhase (Status workloadInstance),
          Message = ''pre-deployment checks are '' @ eventType,
          Source_Component = Kind workloadInstance,
          Type = ''Normal'',
          EventTime = t1,
          FirstTimestamp = t2,
          LastTimestamp = t3,
          Action = eventType,
          ReportingController = ''workloadInstance-controller'',
          ReportingInstance = ''workloadInstance-controller'' \<rparr>, w3))"

text \<open>The zero value \<^verbatim>\<open>&klcv1alpha1.Event{}\<close>.\<close>

definition zeroEvent :: Event where
  "zeroEvent =
    \<lparr> Event_ObjectMeta =
        \<lparr> Name = '''', GenerateName = '''', Namespace = '''', ResourceVersion = '''',
          Annotations = Map.empty \<rparr>,
      Event_Spec = \<lparr> Service = '''', Application = '''', JobSpec = '''' \<rparr>,
      Event_Status = \<lparr> Phase = '''' \<rparr> \<rparr>"

text \<open>
  \<^verbatim>\<open>getPreDeploymentChecksEvent\<close>: only a NotFound error is returned; after any other
  error of \<^verbatim>\<open>Get\<close> the function returns \<^verbatim>\<open>event, nil\<close>, the event still at its zero
  value.
\<close>

definition getPreDeploymentChecksEvent ::
  "world \<Rightarrow> KeptnWorkloadInstance \<Rightarrow> (storeError + Event) \<times> world" where
  "getPreDeploymentChecksEvent w workloadInstance =
    (case Get_Event w (Namespace (ObjectMeta workloadInstance),
                       PreDeploymentTaskName (Status workloadInstance)) of
       (Inl err, w') \<Rightarrow> if err = NotFound then (Inl err, w') else (Inr zeroEvent, w')
     | (Inr event, w') \<Rightarrow> (Inr event, w'))"

text \<open>\<^verbatim>\<open>ctrl.Result\<close>; \<^verbatim>\<open>RequeueAfter\<close> is a \<^verbatim>\<open>time.Duration\<close>, in nanoseconds.\<close>

record Result =
  Requeue :: bool
  RequeueAfter :: int

definition Second :: int where
  "Second = 1000000000"

text \<open>
  The errors \<^verbatim>\<open>Reconcile\<close> returns: the store's error as it is, or wrapped by
  \<^verbatim>\<open>fmt.Errorf("could not fetch KeptnWorkloadInstance: %+v", err)\<close>.
\<close>

datatype reconcileError = CouldNotFetch storeError | StoreError storeError

text \<open>
  The two assignments to the fetched object inside \<^verbatim>\<open>Reconcile\<close>: the task name and the
  phase Running after the checks were started, and the phase taken from the completed
  Check Task (Failed for \<^verbatim>\<open>EventFailed\<close>, Succeeded for anything else).
\<close>

definition setStarted :: "KeptnWorkloadInstance \<Rightarrow> string \<Rightarrow> KeptnWorkloadInstance" where
  "setStarted workloadInstance preDeploymentCheckName =
    workloadInstance\<lparr>Status := (Status workloadInstance)
      \<lparr>PreDeploymentTaskName := preDeploymentCheckName,
       PreDeploymentPhase := WorkloadInstanceRunning\<rparr>\<rparr>"

definition setFinished :: "KeptnWorkloadInstance \<Rightarrow> Event \<Rightarrow> KeptnWorkloadInstance" where
  "setFinished workloadInstance preDeploymentChecksEvent =
    (if Phase (Event_Status preDeploymentChecksEvent) = EventFailed
     then workloadInstance\<lparr>Status := (Status workloadInstance)
            \<lparr>PreDeploymentPhase := WorkloadInstanceFailed\<rparr>\<rparr>
     else workloadInstance\<lparr>Status := (Status workloadInstance)
            \<lparr>PreDeploymentPhase := WorkloadInstanceSucceeded\<rparr>\<rparr>)"

text \<open>
  \<^verbatim>\<open>Reconcile\<close>. The first argument carries the three methods of \<^verbatim>\<open>klcv1alpha1\<close>;
  the result is the pair \<^verbatim>\<open>(ctrl.Result, error)\<close> as a sum, with the state after the
  pass.
\<close>

definition Reconcile ::
  "klcv1alpha1 \<Rightarrow> world \<Rightarrow> NamespacedName \<Rightarrow> (reconcileError + Result) \<times> world" where
  "Reconcile api w req =
    (case Get_KeptnWorkloadInstance w req of
       (Inl err, w1) \<Rightarrow>
         if err = NotFound then (Inr \<lparr>Requeue = False, RequeueAfter = 0\<rparr>, w1)
         else (Inl (CouldNotFetch err), w1)
     | (Inr workloadInstance, w1) \<Rightarrow>
         if IsCompleted api workloadInstance
         then (Inr \<lparr>Requeue = False, RequeueAfter = 0\<rparr>, w1)
         else if IsDeploymentCheckNotCreated api workloadInstance then
           (case startPreDeploymentChecks w1 workloadInstance of
              (Inl err, w2) \<Rightarrow> (Inl (StoreError err), w2)
            | (Inr preDeploymentCheckName, w2) \<Rightarrow>
                (case generateK8sEvent w2
                        (setStarted workloadInstance preDeploymentCheckName) ''started'' of
                   (k8sEvent, w3) \<Rightarrow>
                     (case Create_K8sEvent w3 k8sEvent of
                        (Some err, w4) \<Rightarrow> (Inl (StoreError err), w4)
                      | (None, w4) \<Rightarrow>
                          (case Status_Update w4
                                  (setStarted workloadInstance preDeploymentCheckName) of
                             (Some err, w5) \<Rightarrow> (Inl (StoreError err), w5)
                           | (None, w5) \<Rightarrow>
                               (Inr \<lparr>Requeue = True, RequeueAfter = 5 * Second\<rparr>, w5)))))
         else
           (case getPreDeploymentChecksEvent w1 workloadInstance of
              (Inl err, w2) \<Rightarrow> (Inl (StoreError err), w2)
            | (Inr preDeploymentChecksEvent, w2) \<Rightarrow>
                if Event_IsCompleted api preDeploymentChecksEvent then
                  (case Delete_Event w2 preDeploymentChecksEvent of
                     (Some err, w3) \<Rightarrow> (Inl (StoreError err), w3)
                   | (None, w3) \<Rightarrow>
                       (case Status_Update w3
                               (setFinished workloadInstance preDeploymentChecksEvent) of
                          (Some err, w4) \<Rightarrow> (Inl (StoreError err), w4)
                        | (None, w4) \<Rightarrow>
                            (case generateK8sEvent w4
                                    (setFinished workloadInstance preDeploymentChecksEvent)
                                    ''finished'' of
                               (k8sEvent, w5) \<Rightarrow>
                                 (case Create_K8sEvent w5 k8sEvent of
                                    (Some err, w6) \<Rightarrow> (Inl (StoreError err), w6)
                                  | (None, w6) \<Rightarrow>
                                      (Inr \<lparr>Requeue = False, RequeueAfter = 0\<rparr>, w6)))))
                else (Inr \<lparr>Requeue = True, RequeueAfter = 5 * Second\<rparr>, w2)))"

subsection \<open>Notions used in the statements\<close>

text \<open>
  A store is well keyed when every object is filed under its own namespace and name, as
  the object store keeps it.
\<close>

definition wellKeyed :: "world \<Rightarrow> bool" where
  "wellKeyed w \<longleftrightarrow>
    (\<forall>k i. workloadInstances w k = Some i \<longrightarrow> keyOf (ObjectMeta i) = k) \<and>
    (\<forall>k t. events w k = Some t \<longrightarrow> keyOf (Event_ObjectMeta t) = k)"

text \<open>
  The invariant of the data model: the task name is non-empty iff the phase is Running.
\<close>

definition taskNameInvariant :: "KeptnWorkloadInstance \<Rightarrow> bool" where
  "taskNameInvariant i \<longleftrightarrow>
    (PreDeploymentTaskName (Status i) \<noteq> [] \<longleftrightarrow>
     PreDeploymentPhase (Status i) = WorkloadInstanceRunning)"

text \<open>
  What the monotonicity of the phases needs of the two absent methods on a
  WorkloadInstance: once the pre-deployment phase is terminal, an instance that is not
  reported completed is not reported as lacking its checks either.
\<close>

definition keepsTerminal :: "klcv1alpha1 \<Rightarrow> bool" where
  "keepsTerminal api \<longleftrightarrow>
    (\<forall>i. isTerminal (PreDeploymentPhase (Status i)) \<and> IsDeploymentCheckNotCreated api i
          \<longrightarrow> IsCompleted api i)"

text \<open>
  What happens to the cluster over time: a reconcile pass for a reference, the external
  task executor writing a phase into a Check Task's status, and the store turning
  unreliable for the calls to come.
\<close>

datatype action =
  ReconcileCall NamespacedName
  | ExecutorReports NamespacedName EventPhase
  | StoreWillFail "storeError option list"

fun act :: "klcv1alpha1 \<Rightarrow> world \<Rightarrow> action \<Rightarrow> world" where
  "act api w (ReconcileCall req) = snd (Reconcile api w req)"
| "act api w (ExecutorReports k phase) =
    (case events w k of
       None \<Rightarrow> w
     | Some t \<Rightarrow> w\<lparr>events := (events w)(k \<mapsto> t\<lparr>Event_Status := \<lparr>Phase = phase\<rparr>\<rparr>)\<rparr>)"
| "act api w (StoreWillFail fs) = w\<lparr>faults := fs\<rparr>"

definition run :: "klcv1alpha1 \<Rightarrow> world \<Rightarrow> action list \<Rightarrow> world" where
  "run api w acts = foldl (act api) w acts"

text \<open>
  The part of the state the proofs follow through a pass: the objects, the audit events
  and the clock. The Check Task that \<^verbatim>\<open>startPreDeploymentChecks\<close> builds for a name, and
  the possible outcomes of the two branches of \<^verbatim>\<open>Reconcile\<close>, are stated over it.
\<close>

type_synonym view =
  "(NamespacedName \<rightharpoonup> KeptnWorkloadInstance) \<times> (NamespacedName \<rightharpoonup> Event) \<times>
   K8sEvent list \<times> (nat \<Rightarrow> nat) \<times> nat"

definition view :: "world \<Rightarrow> view" where
  "view w = (workloadInstances w, events w, k8sEvents w, clock w, clockReads w)"

definition checkTask :: "KeptnWorkloadInstance \<Rightarrow> string \<Rightarrow> Event" where
  "checkTask i nm =
    \<lparr> Event_ObjectMeta =
        \<lparr> Name = nm, GenerateName = '''', Namespace = Namespace (ObjectMeta i),
          ResourceVersion = '''', Annotations = Annotations (ObjectMeta i) \<rparr>,
      Event_Spec =
        \<lparr> Service = Name (ObjectMeta i), Application = AppName (Spec i),
          JobSpec = JobSpec (PreDeploymentCheck (Spec i)) \<rparr>,
      Event_Status = \<lparr> Phase = '''' \<rparr> \<rparr>"

definition startOutcome ::
  "world \<Rightarrow> KeptnWorkloadInstance \<Rightarrow> (reconcileError + Result) \<Rightarrow> world \<Rightarrow> bool" where
  "startOutcome w i r w' \<longleftrightarrow>
    (isl r \<and> view w' = view w) \<or>
    (\<exists>nm evs.
       (\<exists>s. nm = Name (ObjectMeta i) @ ''-'' @ s) \<and>
       (evs = events w \<or>
        events w (Namespace (ObjectMeta i), nm) = None \<and>
        evs = (events w)((Namespace (ObjectMeta i), nm) \<mapsto> checkTask i nm)) \<and>
       (isl r \<and>
        view w' = (workloadInstances w, evs, k8sEvents w, clock w, clockReads w + 3) \<or>
        isl r \<and>
        view w' = (workloadInstances w, evs,
                   k8sEvents w @ [fst (generateK8sEvent w (setStarted i nm) ''started'')],
                   clock w, clockReads w + 3) \<or>
        (\<exists>stored.
           r = Inr \<lparr>Requeue = True, RequeueAfter = 5 * Second\<rparr> \<and>
           workloadInstances w (keyOf (ObjectMeta i)) = Some stored \<and>
           view w' = ((workloadInstances w)
                        (keyOf (ObjectMeta i) \<mapsto> stored\<lparr>Status := Status (setStarted i nm)\<rparr>),
                      evs,
                      k8sEvents w @ [fst (generateK8sEvent w (setStarted i nm) ''started'')],
                      clock w, clockReads w + 3))))"

definition pollOutcome ::
  "klcv1alpha1 \<Rightarrow> world \<Rightarrow> KeptnWorkloadInstance \<Rightarrow> (reconcileError + Result) \<Rightarrow> world \<Rightarrow> bool"
  where
  "pollOutcome api w i r w' \<longleftrightarrow>
    view w' = view w \<or>
    (\<exists>t. Event_IsCompleted api t \<and>
       (t = zeroEvent \<or>
        events w (Namespace (ObjectMeta i), PreDeploymentTaskName (Status i)) = Some t) \<and>
       events w (keyOf (Event_ObjectMeta t)) \<noteq> None \<and>
       (isl r \<and>
        view w' = (workloadInstances w, (events w)(keyOf (Event_ObjectMeta t) := None),
                   k8sEvents w, clock w, clockReads w) \<or>
        (\<exists>stored.
           workloadInstances w (keyOf (ObjectMeta i)) = Some stored \<and>
           (isl r \<and>
            view w' = ((workloadInstances w)
                         (keyOf (ObjectMeta i) \<mapsto> stored\<lparr>Status := Status (setFinished i t)\<rparr>),
                       (events w)(keyOf (Event_ObjectMeta t) := None),
                       k8sEvents w, clock w, clockReads w + 3) \<or>
            r = Inr \<lparr>Requeue = False, RequeueAfter = 0\<rparr> \<and>
            view w' = ((workloadInstances w)
                         (keyOf (ObjectMeta i) \<mapsto> stored\<lparr>Status := Status (setFinished i t)\<rparr>),
                       (events w)(keyOf (Event_ObjectMeta t) := None),
                       k8sEvents w @ [fst (generateK8sEvent w (setFinished i t) ''finished'')],
                       clock w, clockReads w + 3)))))"

subsection \<open>A sample cluster\<close>

text \<open>
  The WorkloadInstance \<open>checkout\<close> in namespace \<open>ns\<close> with the pre-deployment payload
  \<open>image-scan\<close>, its Check Tasks, a source of identifiers whose first six values are
  fixed, and a clock that advances by one at each reading.
\<close>

definition sampleUuids :: "nat \<Rightarrow> string" where
  "sampleUuids n =
    (if n = 0 then ''00000000-0000-4000-8000-000000000000''
     else if n = 1 then ''11111111-1111-4111-8111-111111111111''
     else if n = 2 then ''22222222-2222-4222-8222-222222222222''
     else if n = 3 then ''33333333-3333-4333-8333-333333333333''
     else if n = 4 then ''44444444-4444-4444-8444-444444444444''
     else ''55555555-5555-4555-8555-555555555555'')"

definition checkoutWith ::
  "KeptnWorkloadInstancePhase \<Rightarrow> string \<Rightarrow> KeptnWorkloadInstance" where
  "checkoutWith phase taskName =
    \<lparr> Kind = ''KeptnWorkloadInstance'',
      ObjectMeta = \<lparr> Name = ''checkout'', GenerateName = '''', Namespace = ''ns'',
                     ResourceVersion = ''1'', Annotations = [''app'' \<mapsto> ''shop''] \<rparr>,
      Spec = \<lparr> AppName = ''shop'',
               PreDeploymentCheck =
                 \<lparr> Service = '''', Application = '''', JobSpec = ''image-scan'' \<rparr>,
               PostDeploymentCheck =
                 \<lparr> Service = '''', Application = '''', JobSpec = ''smoke-test'' \<rparr> \<rparr>,
      Status = \<lparr> PreDeploymentPhase = phase,
                 PostDeploymentPhase = WorkloadInstanceNotStarted,
                 PreDeploymentTaskName = taskName, PostDeploymentTaskName = '''' \<rparr> \<rparr>"

definition scanTask :: "string \<Rightarrow> EventPhase \<Rightarrow> Event" where
  "scanTask nm phase =
    \<lparr> Event_ObjectMeta =
        \<lparr> Name = nm, GenerateName = '''', Namespace = ''ns'', ResourceVersion = ''1'',
          Annotations = [''app'' \<mapsto> ''shop''] \<rparr>,
      Event_Spec = \<lparr> Service = ''checkout'', Application = ''shop'', JobSpec = ''image-scan'' \<rparr>,
      Event_Status = \<lparr> Phase = phase \<rparr> \<rparr>"

definition cluster ::
  "KeptnWorkloadInstance \<Rightarrow> (NamespacedName \<rightharpoonup> Event) \<Rightarrow> storeError option list \<Rightarrow> world" where
  "cluster i tasks fs =
    \<lparr> workloadInstances = [(''ns'', ''checkout'') \<mapsto> i],
      events = tasks, k8sEvents = [], faults = fs,
      uuidSource = sampleUuids, uuidsDrawn = 0, clock = (\<lambda>n. 1000 + n), clockReads = 0 \<rparr>"

text \<open>Five Check Tasks that hold the first five names the identifier source yields.\<close>

definition fiveTaken :: "NamespacedName \<rightharpoonup> Event" where
  "fiveTaken =
    [(''ns'', ''checkout-00000000-0'') \<mapsto> scanTask ''checkout-00000000-0'' EventRunning,
     (''ns'', ''checkout-11111111-1'') \<mapsto> scanTask ''checkout-11111111-1'' EventRunning,
     (''ns'', ''checkout-22222222-2'') \<mapsto> scanTask ''checkout-22222222-2'' EventRunning,
     (''ns'', ''checkout-33333333-3'') \<mapsto> scanTask ''checkout-33333333-3'' EventRunning,
     (''ns'', ''checkout-44444444-4'') \<mapsto> scanTask ''checkout-44444444-4'' EventRunning]"

section \<open>Properties\<close>

subsection \<open>The calls of the store and the branches of Reconcile\<close>

lemma nextFault_view: "nextFault w = (f, w') \<Longrightarrow> view w' = view w"
  by (auto simp: nextFault_def view_def split: list.splits)

lemma Get_KeptnWorkloadInstance_post:
  "Get_KeptnWorkloadInstance w k = (r, w') \<Longrightarrow>
     view w' = view w \<and> (\<forall>i. r = Inr i \<longrightarrow> workloadInstances w k = Some i)"
  by (auto simp: Get_KeptnWorkloadInstance_def view_def dest!: nextFault_view
           split: prod.splits option.splits)

lemma Get_Event_post:
  "Get_Event w k = (r, w') \<Longrightarrow>
     view w' = view w \<and> (\<forall>t. r = Inr t \<longrightarrow> events w k = Some t)"
  by (auto simp: Get_Event_def view_def dest!: nextFault_view split: prod.splits option.splits)

lemma Create_Event_post:
  "Create_Event w t = (r, w') \<Longrightarrow>
     (r \<noteq> None \<and> view w' = view w) \<or>
     (r = None \<and> events w (keyOf (Event_ObjectMeta t)) = None \<and>
      view w' = (workloadInstances w, (events w)(keyOf (Event_ObjectMeta t) \<mapsto> t),
                 k8sEvents w, clock w, clockReads w))"
  by (auto simp: Create_Event_def view_def dest!: nextFault_view split: prod.splits option.splits)

lemma Delete_Event_post:
  "Delete_Event w t = (r, w') \<Longrightarrow>
     (r \<noteq> None \<and> view w' = view w) \<or>
     (r = None \<and> events w (keyOf (Event_ObjectMeta t)) \<noteq> None \<and>
      view w' = (workloadInstances w, (events w)(keyOf (Event_ObjectMeta t) := None),
                 k8sEvents w, clock w, clockReads w))"
  by (auto simp: Delete_Event_def view_def dest!: nextFault_view split: prod.splits option.splits)

lemma Create_K8sEvent_post:
  "Create_K8sEvent w e = (r, w') \<Longrightarrow>
     (r \<noteq> None \<and> view w' = view w) \<or>
     (r = None \<and>
      view w' = (workloadInstances w, events w, k8sEvents w @ [e], clock w, clockReads w))"
  by (auto simp: Create_K8sEvent_def view_def dest!: nextFault_view
           split: prod.splits option.splits)

lemma Status_Update_post:
  "Status_Update w i = (r, w') \<Longrightarrow>
     (r \<noteq> None \<and> view w' = view w) \<or>
     (\<exists>stored. r = None \<and> workloadInstances w (keyOf (ObjectMeta i)) = Some stored \<and>
        view w' = ((workloadInstances w)(keyOf (ObjectMeta i) \<mapsto> stored\<lparr>Status := Status i\<rparr>),
                   events w, k8sEvents w, clock w, clockReads w))"
  by (auto simp: Status_Update_def view_def dest!: nextFault_view split: prod.splits option.splits)

lemma generateSuffix_view: "generateSuffix w = (s, w') \<Longrightarrow> view w' = view w"
  by (auto simp: generateSuffix_def Let_def view_def)

lemma generateK8sEvent_view:
  "generateK8sEvent w i ty = (e, w') \<Longrightarrow>
     view w' = (workloadInstances w, events w, k8sEvents w, clock w, clockReads w + 3)"
  by (auto simp: generateK8sEvent_def timeNow_def view_def)

lemma generateK8sEvent_fst:
  "clock w2 = clock w \<Longrightarrow> clockReads w2 = clockReads w \<Longrightarrow>
     fst (generateK8sEvent w2 i ty) = fst (generateK8sEvent w i ty)"
  by (simp add: generateK8sEvent_def timeNow_def)

lemma createLoop_post:
  "createLoop n w i ev = (r, w') \<Longrightarrow>
     view w' = view w \<or>
     (\<exists>nm. r = Inr nm \<and> events w (Namespace (Event_ObjectMeta ev), nm) = None \<and>
        view w' = (workloadInstances w,
                   (events w)((Namespace (Event_ObjectMeta ev), nm) \<mapsto>
                      ev\<lparr>Event_ObjectMeta := (Event_ObjectMeta ev)\<lparr>Name := nm\<rparr>\<rparr>),
                   k8sEvents w, clock w, clockReads w))"
proof (induction n arbitrary: w ev)
  case 0
  then show ?case by simp
next
  case (Suc n)
  obtain c w1 where c: "Create_Event w ev = (c, w1)" by (cases "Create_Event w ev")
  note post = Create_Event_post [OF c]
  show ?case
  proof (cases c)
    case None
    have same: "ev\<lparr>Event_ObjectMeta := (Event_ObjectMeta ev)\<lparr>Name := Name (Event_ObjectMeta ev)\<rparr>\<rparr> = ev"
      by simp
    from None post c Suc.prems have "r = Inr (Name (Event_ObjectMeta ev))"
      and "events w (Namespace (Event_ObjectMeta ev), Name (Event_ObjectMeta ev)) = None"
      and "view w' = (workloadInstances w,
             (events w)((Namespace (Event_ObjectMeta ev), Name (Event_ObjectMeta ev)) \<mapsto> ev),
             k8sEvents w, clock w, clockReads w)"
      by (auto simp: keyOf_def)
    with same show ?thesis by metis
  next
    case (Some err)
    with post have w1: "view w1 = view w" by auto
    show ?thesis
    proof (cases "err = AlreadyExists")
      case False
      with Some c Suc.prems w1 show ?thesis by auto
    next
      case True
      obtain s w2 where s: "generateSuffix w1 = (s, w2)" by (cases "generateSuffix w1")
      let ?ev = "ev\<lparr>Event_ObjectMeta := (Event_ObjectMeta ev)\<lparr>Name := Name (ObjectMeta i) @ ''-'' @ s\<rparr>\<rparr>"
      from True Some c s Suc.prems have rec: "createLoop n w2 i ?ev = (r, w')" by simp
      from generateSuffix_view [OF s] w1 have w2: "view w2 = view w" by simp
      then have parts: "workloadInstances w2 = workloadInstances w" "events w2 = events w"
        "k8sEvents w2 = k8sEvents w" "clock w2 = clock w" "clockReads w2 = clockReads w"
        by (simp_all add: view_def)
      have "?ev\<lparr>Event_ObjectMeta := (Event_ObjectMeta ?ev)\<lparr>Name := nm\<rparr>\<rparr> =
            ev\<lparr>Event_ObjectMeta := (Event_ObjectMeta ev)\<lparr>Name := nm\<rparr>\<rparr>" for nm
        by simp
      moreover have "Namespace (Event_ObjectMeta ?ev) = Namespace (Event_ObjectMeta ev)"
        by simp
      ultimately show ?thesis
        using Suc.IH [OF rec] w2 unfolding parts by simp
    qed
  qed
qed

lemma createLoop_name:
  "createLoop n w i ev = (Inr nm, w') \<Longrightarrow>
     nm = Name (Event_ObjectMeta ev) \<or> (\<exists>s. nm = Name (ObjectMeta i) @ ''-'' @ s)"
proof (induction n arbitrary: w ev)
  case 0
  then show ?case by simp
next
  case (Suc n)
  show ?case
  proof (cases "Create_Event w ev")
    case (Pair c w1)
    show ?thesis
    proof (cases c)
      case None
      with Pair Suc.prems show ?thesis by simp
    next
      case (Some err)
      show ?thesis
      proof (cases "err = AlreadyExists")
        case False
        with Some Pair Suc.prems show ?thesis by simp
      next
        case True
        obtain s w2 where s: "generateSuffix w1 = (s, w2)" by (cases "generateSuffix w1")
        with True Some Pair Suc.prems
        have "createLoop n w2 i
                (ev\<lparr>Event_ObjectMeta := (Event_ObjectMeta ev)
                   \<lparr>Name := Name (ObjectMeta i) @ ''-'' @ s\<rparr>\<rparr>) = (Inr nm, w')"
          by simp
        from Suc.IH [OF this] show ?thesis by auto
      qed
    qed
  qed
qed

lemma startPreDeploymentChecks_post:
  assumes "startPreDeploymentChecks w i = (r, w')"
  shows "view w' = view w \<or>
           (\<exists>nm. r = Inr nm \<and> events w (Namespace (ObjectMeta i), nm) = None \<and>
              view w' = (workloadInstances w,
                         (events w)((Namespace (ObjectMeta i), nm) \<mapsto> checkTask i nm),
                         k8sEvents w, clock w, clockReads w))"
proof -
  obtain s w1 where s: "generateSuffix w = (s, w1)" by (cases "generateSuffix w")
  from generateSuffix_view [OF s] have w1: "view w1 = view w" .
  from assms s have "createLoop 5 w1 i (checkTask i (Name (ObjectMeta i) @ ''-'' @ s)) = (r, w')"
    by (simp add: startPreDeploymentChecks_def checkTask_def)
  from createLoop_post [OF this] w1 show ?thesis
    by (auto simp: checkTask_def view_def)
qed

lemma startPreDeploymentChecks_name:
  assumes "startPreDeploymentChecks w i = (Inr nm, w')"
  shows "\<exists>s. nm = Name (ObjectMeta i) @ ''-'' @ s"
proof -
  obtain s w1 where s: "generateSuffix w = (s, w1)" by (cases "generateSuffix w")
  from assms s have "createLoop 5 w1 i (checkTask i (Name (ObjectMeta i) @ ''-'' @ s)) = (Inr nm, w')"
    by (simp add: startPreDeploymentChecks_def checkTask_def)
  from createLoop_name [OF this] show ?thesis
    by (auto simp: checkTask_def)
qed

lemma getPreDeploymentChecksEvent_post:
  "getPreDeploymentChecksEvent w i = (r, w') \<Longrightarrow>
     view w' = view w \<and>
     (\<forall>t. r = Inr t \<longrightarrow> t = zeroEvent \<or>
        events w (Namespace (ObjectMeta i), PreDeploymentTaskName (Status i)) = Some t)"
  by (auto simp: getPreDeploymentChecksEvent_def dest!: Get_Event_post
           split: prod.splits sum.splits if_splits)

lemma Reconcile_start:
  assumes get: "Get_KeptnWorkloadInstance w req = (Inr i, w1)"
    and nc: "\<not> IsCompleted api i"
    and cr: "IsDeploymentCheckNotCreated api i"
    and rec: "Reconcile api w req = (r, w')"
  shows "startOutcome w i r w'"
proof -
  from Get_KeptnWorkloadInstance_post [OF get] have w1: "view w1 = view w" by blast
  obtain s w2 where s: "startPreDeploymentChecks w1 i = (s, w2)"
    by (cases "startPreDeploymentChecks w1 i")
  note post2 = startPreDeploymentChecks_post [OF s]
  show ?thesis
  proof (cases s)
    case (Inl err)
    with rec get nc cr s have "r = Inl (StoreError err)" and "w' = w2"
      by (simp_all add: Reconcile_def)
    with post2 w1 Inl have "isl r \<and> view w' = view w" by auto
    then show ?thesis unfolding startOutcome_def by blast
  next
    case (Inr nm)
    from startPreDeploymentChecks_name s Inr
    have nm: "\<exists>s. nm = Name (ObjectMeta i) @ ''-'' @ s" by blast
    define evs where "evs = events w2"
    from post2 w1 Inr have evs: "evs = events w \<or>
           events w (Namespace (ObjectMeta i), nm) = None \<and>
           evs = (events w)((Namespace (ObjectMeta i), nm) \<mapsto> checkTask i nm)"
      unfolding evs_def view_def by auto
    from post2 w1 have w2: "view w2 = (workloadInstances w, evs, k8sEvents w, clock w, clockReads w)"
      unfolding evs_def view_def by auto
    let ?i = "setStarted i nm"
    let ?E = "fst (generateK8sEvent w ?i ''started'')"
    obtain e w3 where g: "generateK8sEvent w2 ?i ''started'' = (e, w3)"
      by (cases "generateK8sEvent w2 ?i ''started''")
    from generateK8sEvent_view [OF g] w2
    have w3: "view w3 = (workloadInstances w, evs, k8sEvents w, clock w, clockReads w + 3)"
      by (simp add: view_def)
    have "fst (generateK8sEvent w2 ?i ''started'') = ?E"
      using w2 by (intro generateK8sEvent_fst) (simp_all add: view_def)
    with g have e: "e = ?E" by simp
    obtain c w4 where c: "Create_K8sEvent w3 e = (c, w4)" by (cases "Create_K8sEvent w3 e")
    note post4 = Create_K8sEvent_post [OF c]
    show ?thesis
    proof (cases c)
      case (Some err)
      with rec get nc cr s Inr g c have "r = Inl (StoreError err)" and "w' = w4"
        by (simp_all add: Reconcile_def)
      with post4 w3 Some
      have "isl r \<and> view w' = (workloadInstances w, evs, k8sEvents w, clock w, clockReads w + 3)"
        by auto
      with nm evs show ?thesis unfolding startOutcome_def by blast
    next
      case None
      with post4 w3 e
      have w4: "view w4 = (workloadInstances w, evs, k8sEvents w @ [?E], clock w, clockReads w + 3)"
        by (auto simp: view_def)
      obtain u w5 where u: "Status_Update w4 ?i = (u, w5)" by (cases "Status_Update w4 ?i")
      have key: "keyOf (ObjectMeta ?i) = keyOf (ObjectMeta i)"
        by (simp add: setStarted_def)
      note post5 = Status_Update_post [OF u]
      show ?thesis
      proof (cases u)
        case (Some err)
        with rec get nc cr s Inr g c None u have "r = Inl (StoreError err)" and "w' = w5"
          by (simp_all add: Reconcile_def)
        with post5 w4 Some
        have "isl r \<and> view w' = (workloadInstances w, evs, k8sEvents w @ [?E], clock w,
                                  clockReads w + 3)"
          by auto
        with nm evs show ?thesis unfolding startOutcome_def by blast
      next
        case None': None
        with rec get nc cr s Inr g c None u
        have "r = Inr \<lparr>Requeue = True, RequeueAfter = 5 * Second\<rparr>" and "w' = w5"
          by (simp_all add: Reconcile_def)
        with post5 w4 None' key
        have "\<exists>stored.
           r = Inr \<lparr>Requeue = True, RequeueAfter = 5 * Second\<rparr> \<and>
           workloadInstances w (keyOf (ObjectMeta i)) = Some stored \<and>
           view w' = ((workloadInstances w)
                        (keyOf (ObjectMeta i) \<mapsto> stored\<lparr>Status := Status ?i\<rparr>),
                      evs, k8sEvents w @ [?E], clock w, clockReads w + 3)"
          by (auto simp: view_def)
        with nm evs show ?thesis unfolding startOutcome_def by blast
      qed
    qed
  qed
qed

lemma Reconcile_poll:
  assumes get: "Get_KeptnWorkloadInstance w req = (Inr i, w1)"
    and nc: "\<not> IsCompleted api i"
    and cr: "\<not> IsDeploymentCheckNotCreated api i"
    and rec: "Reconcile api w req = (r, w')"
  shows "pollOutcome api w i r w'"
proof -
  from Get_KeptnWorkloadInstance_post [OF get] have w1: "view w1 = view w" by blast
  obtain g w2 where g: "getPreDeploymentChecksEvent w1 i = (g, w2)"
    by (cases "getPreDeploymentChecksEvent w1 i")
  from getPreDeploymentChecksEvent_post [OF g] w1
  have w2: "view w2 = view w"
    and found: "\<forall>t. g = Inr t \<longrightarrow> t = zeroEvent \<or>
        events w (Namespace (ObjectMeta i), PreDeploymentTaskName (Status i)) = Some t"
    by (auto simp: view_def)
  show ?thesis
  proof (cases g)
    case (Inl err)
    with rec get nc cr g have "w' = w2" by (simp add: Reconcile_def)
    with w2 show ?thesis unfolding pollOutcome_def by simp
  next
    case (Inr t)
    with found have t: "t = zeroEvent \<or>
        events w (Namespace (ObjectMeta i), PreDeploymentTaskName (Status i)) = Some t" by simp
    show ?thesis
    proof (cases "Event_IsCompleted api t")
      case False
      with rec get nc cr g Inr have "w' = w2" by (simp add: Reconcile_def)
      with w2 show ?thesis unfolding pollOutcome_def by simp
    next
      case True
      let ?i = "setFinished i t"
      let ?evs = "(events w)(keyOf (Event_ObjectMeta t) := None)"
      obtain d w3 where d: "Delete_Event w2 t = (d, w3)" by (cases "Delete_Event w2 t")
      note post3 = Delete_Event_post [OF d]
      show ?thesis
      proof (cases d)
        case (Some err)
        with rec get nc cr g Inr True d have "w' = w3" by (simp add: Reconcile_def)
        with post3 Some w2 show ?thesis unfolding pollOutcome_def by auto
      next
        case None
        with post3 w2 have ex: "events w (keyOf (Event_ObjectMeta t)) \<noteq> None"
          and w3: "view w3 = (workloadInstances w, ?evs, k8sEvents w, clock w, clockReads w)"
          by (auto simp: view_def)
        obtain u w4 where u: "Status_Update w3 ?i = (u, w4)" by (cases "Status_Update w3 ?i")
        have key: "keyOf (ObjectMeta ?i) = keyOf (ObjectMeta i)"
          by (simp add: setFinished_def)
        note post4 = Status_Update_post [OF u]
        show ?thesis
        proof (cases u)
          case (Some err)
          with rec get nc cr g Inr True d None u have "r = Inl (StoreError err)" and "w' = w4"
            by (simp_all add: Reconcile_def)
          with post4 w3 Some
          have "isl r \<and> view w' = (workloadInstances w, ?evs, k8sEvents w, clock w, clockReads w)"
            by auto
          with True t ex show ?thesis unfolding pollOutcome_def by blast
        next
          case None': None
          with post4 w3 key obtain stored where
            stored: "workloadInstances w (keyOf (ObjectMeta i)) = Some stored"
            and w4: "view w4 = ((workloadInstances w)
                         (keyOf (ObjectMeta i) \<mapsto> stored\<lparr>Status := Status ?i\<rparr>),
                       ?evs, k8sEvents w, clock w, clockReads w)"
            by (auto simp: view_def)
          let ?wis = "(workloadInstances w)(keyOf (ObjectMeta i) \<mapsto> stored\<lparr>Status := Status ?i\<rparr>)"
          let ?E = "fst (generateK8sEvent w ?i ''finished'')"
          obtain e w5 where e5: "generateK8sEvent w4 ?i ''finished'' = (e, w5)"
            by (cases "generateK8sEvent w4 ?i ''finished''")
          from generateK8sEvent_view [OF e5] w4
          have w5: "view w5 = (?wis, ?evs, k8sEvents w, clock w, clockReads w + 3)"
            by (simp add: view_def)
          have "fst (generateK8sEvent w4 ?i ''finished'') = ?E"
            using w4 by (intro generateK8sEvent_fst) (simp_all add: view_def)
          with e5 have e: "e = ?E" by simp
          obtain c w6 where c: "Create_K8sEvent w5 e = (c, w6)" by (cases "Create_K8sEvent w5 e")
          note post6 = Create_K8sEvent_post [OF c]
          show ?thesis
          proof (cases c)
            case (Some err)
            with rec get nc cr g Inr True d None u None' e5 c
            have "r = Inl (StoreError err)" and "w' = w6"
              by (simp_all add: Reconcile_def)
            with post6 w5 Some
            have "isl r \<and> view w' = (?wis, ?evs, k8sEvents w, clock w, clockReads w + 3)"
              by auto
            with True t ex stored show ?thesis unfolding pollOutcome_def by blast
          next
            case None'': None
            with rec get nc cr g Inr True d None u None' e5 c
            have "r = Inr \<lparr>Requeue = False, RequeueAfter = 0\<rparr>" and "w' = w6"
              by (simp_all add: Reconcile_def)
            with post6 w5 None'' e
            have "r = Inr \<lparr>Requeue = False, RequeueAfter = 0\<rparr> \<and>
                  view w' = (?wis, ?evs, k8sEvents w @ [?E], clock w, clockReads w + 3)"
              by (auto simp: view_def)
            with True t ex stored show ?thesis unfolding pollOutcome_def by blast
          qed
        qed
      qed
    qed
  qed
qed

lemma Reconcile_outcome:
  assumes "Reconcile api w req = (r, w')"
  shows "view w' = view w \<or>
    (\<exists>i. workloadInstances w req = Some i \<and> \<not> IsCompleted api i \<and>
       (if IsDeploymentCheckNotCreated api i then startOutcome w i r w'
        else pollOutcome api w i r w'))"
proof -
  obtain g w1 where g: "Get_KeptnWorkloadInstance w req = (g, w1)"
    by (cases "Get_KeptnWorkloadInstance w req")
  from Get_KeptnWorkloadInstance_post [OF g]
  have w1: "view w1 = view w" and found: "\<forall>i. g = Inr i \<longrightarrow> workloadInstances w req = Some i"
    by blast+
  show ?thesis
  proof (cases g)
    case (Inl err)
    with assms g have "w' = w1" by (simp add: Reconcile_def split: if_splits)
    with w1 show ?thesis by simp
  next
    case (Inr i)
    with found have i: "workloadInstances w req = Some i" by simp
    show ?thesis
    proof (cases "IsCompleted api i")
      case True
      with assms g Inr have "w' = w1" by (simp add: Reconcile_def)
      with w1 show ?thesis by simp
    next
      case False
      show ?thesis
      proof (cases "IsDeploymentCheckNotCreated api i")
        case True
        from Reconcile_start [OF g [unfolded Inr] False True assms] i False True
        show ?thesis by auto
      next
        case nc: False
        from Reconcile_poll [OF g [unfolded Inr] False nc assms] i False nc
        show ?thesis by auto
      qed
    qed
  qed
qed

subsection \<open>Unfolding on the sample cluster\<close>

lemmas sample_defs = sampleUuids_def checkoutWith_def scanTask_def cluster_def fiveTaken_def

lemmas phase_defs = WorkloadInstanceNotStarted_def WorkloadInstanceRunning_def
  WorkloadInstanceSucceeded_def WorkloadInstanceFailed_def EventFailed_def EventSucceeded_def
  EventRunning_def EventPending_def isTerminal_def

lemmas store_defs = nextFault_def Get_KeptnWorkloadInstance_def Get_Event_def Create_Event_def
  Delete_Event_def Create_K8sEvent_def Status_Update_def timeNow_def generateSuffix_def keyOf_def

lemmas controller_defs = Reconcile_def startPreDeploymentChecks_def generateK8sEvent_def
  getPreDeploymentChecksEvent_def setStarted_def setFinished_def zeroEvent_def specApi_def
  Second_def

subsection \<open>What a pass does to the stored objects\<close>

lemma wellKeyed_instance:
  "wellKeyed w \<Longrightarrow> workloadInstances w k = Some i \<Longrightarrow> keyOf (ObjectMeta i) = k"
  unfolding wellKeyed_def by blast

lemma wellKeyed_task:
  "wellKeyed w \<Longrightarrow> events w k = Some t \<Longrightarrow> keyOf (Event_ObjectMeta t) = k"
  unfolding wellKeyed_def by blast

lemma setStarted_stored: "i\<lparr>Status := Status (setStarted i nm)\<rparr> = setStarted i nm"
  by (simp add: setStarted_def)

lemma setFinished_stored: "i\<lparr>Status := Status (setFinished i t)\<rparr> = setFinished i t"
  by (simp add: setFinished_def)

lemma Reconcile_instances:
  assumes wk: "wellKeyed w" and rec: "Reconcile api w req = (r, w')"
  shows "workloadInstances w' = workloadInstances w \<or>
     (\<exists>i. workloadInstances w req = Some i \<and> \<not> IsCompleted api i \<and>
        ((\<exists>s. IsDeploymentCheckNotCreated api i \<and>
              workloadInstances w' =
                (workloadInstances w)(req \<mapsto> setStarted i (Name (ObjectMeta i) @ ''-'' @ s))) \<or>
         (\<exists>t. \<not> IsDeploymentCheckNotCreated api i \<and> Event_IsCompleted api t \<and>
              workloadInstances w' = (workloadInstances w)(req \<mapsto> setFinished i t))))"
proof -
  from Reconcile_outcome [OF rec] consider
    (same) "view w' = view w"
    | (start) i where "workloadInstances w req = Some i" "\<not> IsCompleted api i"
        "IsDeploymentCheckNotCreated api i" "startOutcome w i r w'"
    | (poll) i where "workloadInstances w req = Some i" "\<not> IsCompleted api i"
        "\<not> IsDeploymentCheckNotCreated api i" "pollOutcome api w i r w'"
    by (auto split: if_splits)
  then show ?thesis
  proof cases
    case same
    then show ?thesis by (simp add: view_def)
  next
    case (start i)
    from wk start(1) have key: "keyOf (ObjectMeta i) = req" unfolding wellKeyed_def by blast
    from start(4) key start(1) have "workloadInstances w' = workloadInstances w \<or>
      (\<exists>s. workloadInstances w' =
              (workloadInstances w)(req \<mapsto> setStarted i (Name (ObjectMeta i) @ ''-'' @ s)))"
      unfolding startOutcome_def view_def by (auto simp: setStarted_stored)
    with start(1-3) show ?thesis by blast
  next
    case (poll i)
    from wk poll(1) have key: "keyOf (ObjectMeta i) = req" unfolding wellKeyed_def by blast
    from poll(4) key poll(1) have "workloadInstances w' = workloadInstances w \<or>
      (\<exists>t. Event_IsCompleted api t \<and>
           workloadInstances w' = (workloadInstances w)(req \<mapsto> setFinished i t))"
      unfolding pollOutcome_def view_def by (auto simp: setFinished_stored)
    with poll(1-3) show ?thesis by blast
  qed
qed

lemma Reconcile_events:
  assumes rec: "Reconcile api w req = (r, w')"
  shows "events w' = events w \<or>
     (\<exists>i nm. workloadInstances w req = Some i \<and>
        events w (Namespace (ObjectMeta i), nm) = None \<and>
        events w' = (events w)((Namespace (ObjectMeta i), nm) \<mapsto> checkTask i nm)) \<or>
     (\<exists>i t. workloadInstances w req = Some i \<and>
        (t = zeroEvent \<or>
         events w (Namespace (ObjectMeta i), PreDeploymentTaskName (Status i)) = Some t) \<and>
        events w' = (events w)(keyOf (Event_ObjectMeta t) := None))"
proof -
  from Reconcile_outcome [OF rec] consider
    (same) "view w' = view w"
    | (start) i where "workloadInstances w req = Some i" "startOutcome w i r w'"
    | (poll) i where "workloadInstances w req = Some i" "pollOutcome api w i r w'"
    by (auto split: if_splits)
  then show ?thesis
  proof cases
    case same
    then show ?thesis by (simp add: view_def)
  next
    case (start i)
    from start(2) have "events w' = events w \<or>
      (\<exists>nm. events w (Namespace (ObjectMeta i), nm) = None \<and>
        events w' = (events w)((Namespace (ObjectMeta i), nm) \<mapsto> checkTask i nm))"
      unfolding startOutcome_def view_def by auto
    with start(1) show ?thesis by blast
  next
    case (poll i)
    from poll(2) have "events w' = events w \<or>
      (\<exists>t. (t = zeroEvent \<or>
         events w (Namespace (ObjectMeta i), PreDeploymentTaskName (Status i)) = Some t) \<and>
        events w' = (events w)(keyOf (Event_ObjectMeta t) := None))"
      unfolding pollOutcome_def view_def by auto
    with poll(1) show ?thesis by blast
  qed
qed

lemma Reconcile_instances_meta:
  assumes wk: "wellKeyed w" and rec: "Reconcile api w req = (r, w')"
  shows "workloadInstances w' = workloadInstances w \<or>
     (\<exists>i st. workloadInstances w req = Some i \<and>
        workloadInstances w' = (workloadInstances w)(req \<mapsto> i\<lparr>Status := st\<rparr>))"
proof -
  have "setStarted i nm = i\<lparr>Status := Status (setStarted i nm)\<rparr>" for i nm
    by (simp add: setStarted_def)
  moreover have "setFinished i t = i\<lparr>Status := Status (setFinished i t)\<rparr>" for i t
    by (simp add: setFinished_def)
  ultimately show ?thesis
    using Reconcile_instances [OF wk rec] by metis
qed

lemma wellKeyed_Reconcile:
  assumes wk: "wellKeyed w" and rec: "Reconcile api w req = (r, w')"
  shows "wellKeyed w'"
proof -
  have inst: "keyOf (ObjectMeta i') = k" if k: "workloadInstances w' k = Some i'" for k i'
  proof -
    from Reconcile_instances_meta [OF wk rec] consider
      "workloadInstances w' = workloadInstances w"
      | i st where "workloadInstances w req = Some i"
          "workloadInstances w' = (workloadInstances w)(req \<mapsto> i\<lparr>Status := st\<rparr>)"
      by blast
    then show ?thesis
    proof cases
      case 1
      with k wellKeyed_instance [OF wk] show ?thesis by simp
    next
      case (2 i st)
      show ?thesis
      proof (cases "k = req")
        case True
        with 2 k have "i' = i\<lparr>Status := st\<rparr>" by simp
        with wellKeyed_instance [OF wk 2(1)] True show ?thesis by simp
      next
        case False
        with 2 k have "workloadInstances w k = Some i'" by simp
        with wellKeyed_instance [OF wk] show ?thesis by simp
      qed
    qed
  qed
  have task: "keyOf (Event_ObjectMeta t) = k" if k: "events w' k = Some t" for k t
  proof -
    have "events w' = events w \<or>
      (\<exists>i nm. events w' = (events w)((Namespace (ObjectMeta i), nm) \<mapsto> checkTask i nm)) \<or>
      (\<exists>d::Event. events w' = (events w)(keyOf (Event_ObjectMeta d) := None))"
      using Reconcile_events [OF rec] by blast
    then show ?thesis
    proof (elim disjE exE)
      assume "events w' = events w"
      with k wellKeyed_task [OF wk] show ?thesis by simp
    next
      fix i nm
      assume new: "events w' = (events w)((Namespace (ObjectMeta i), nm) \<mapsto> checkTask i nm)"
      show ?thesis
      proof (cases "k = (Namespace (ObjectMeta i), nm)")
        case True
        with new k have "t = checkTask i nm" by simp
        with True show ?thesis by (simp add: checkTask_def keyOf_def)
      next
        case False
        with new k have "events w k = Some t" by simp
        with wellKeyed_task [OF wk] show ?thesis by simp
      qed
    next
      fix d
      assume "events w' = (events w)(keyOf (Event_ObjectMeta d) := None)"
      with k have "events w k = Some t" by (simp split: if_splits)
      with wellKeyed_task [OF wk] show ?thesis by simp
    qed
  qed
  from inst task show ?thesis unfolding wellKeyed_def by blast
qed

lemma terminal_not_running: "isTerminal p \<Longrightarrow> p \<noteq> WorkloadInstanceRunning"
  by (auto simp: isTerminal_def WorkloadInstanceRunning_def WorkloadInstanceSucceeded_def
        WorkloadInstanceFailed_def)

lemma setFinished_terminal: "isTerminal (PreDeploymentPhase (Status (setFinished i t)))"
  by (simp add: setFinished_def isTerminal_def)

lemma Reconcile_status:
  assumes wk: "wellKeyed w" and rec: "Reconcile api w req = (r, w')"
    and k: "workloadInstances w k = Some i"
  shows "\<exists>p n.
    workloadInstances w' k =
      Some (i\<lparr>Status := (Status i)\<lparr>PreDeploymentPhase := p, PreDeploymentTaskName := n\<rparr>\<rparr>) \<and>
    ((p = PreDeploymentPhase (Status i) \<and> n = PreDeploymentTaskName (Status i)) \<or>
     (k = req \<and> \<not> IsCompleted api i \<and> IsDeploymentCheckNotCreated api i \<and>
      p = WorkloadInstanceRunning \<and> (\<exists>s. n = Name (ObjectMeta i) @ ''-'' @ s)) \<or>
     (k = req \<and> \<not> IsCompleted api i \<and> \<not> IsDeploymentCheckNotCreated api i \<and>
      isTerminal p \<and> n = PreDeploymentTaskName (Status i)))"
proof -
  have same: "i = i\<lparr>Status := (Status i)\<lparr>PreDeploymentPhase := PreDeploymentPhase (Status i),
                      PreDeploymentTaskName := PreDeploymentTaskName (Status i)\<rparr>\<rparr>"
    by simp
  have started: "setStarted i nm =
      i\<lparr>Status := (Status i)\<lparr>PreDeploymentPhase := WorkloadInstanceRunning,
                      PreDeploymentTaskName := nm\<rparr>\<rparr>" for nm
    by (simp add: setStarted_def)
  have finished: "setFinished i t =
      i\<lparr>Status := (Status i)\<lparr>PreDeploymentPhase := PreDeploymentPhase (Status (setFinished i t)),
                      PreDeploymentTaskName := PreDeploymentTaskName (Status i)\<rparr>\<rparr>" for t
    by (simp add: setFinished_def)
  from Reconcile_instances [OF wk rec] show ?thesis
  proof (elim disjE exE conjE)
    assume "workloadInstances w' = workloadInstances w"
    with k same show ?thesis by metis
  next
    fix j s
    assume j: "workloadInstances w req = Some j" "\<not> IsCompleted api j"
      "IsDeploymentCheckNotCreated api j"
      and upd: "workloadInstances w' =
        (workloadInstances w)(req \<mapsto> setStarted j (Name (ObjectMeta j) @ ''-'' @ s))"
    show ?thesis
    proof (cases "k = req")
      case True
      with j k have "j = i" by simp
      with upd True have "workloadInstances w' k =
        Some (i\<lparr>Status := (Status i)\<lparr>PreDeploymentPhase := WorkloadInstanceRunning,
                      PreDeploymentTaskName := Name (ObjectMeta i) @ ''-'' @ s\<rparr>\<rparr>)"
        using started by simp
      with True j \<open>j = i\<close> show ?thesis by blast
    next
      case False
      with upd k have "workloadInstances w' k = Some i" by simp
      with same show ?thesis by metis
    qed
  next
    fix j t
    assume j: "workloadInstances w req = Some j" "\<not> IsCompleted api j"
      "\<not> IsDeploymentCheckNotCreated api j"
      and upd: "workloadInstances w' = (workloadInstances w)(req \<mapsto> setFinished j t)"
    show ?thesis
    proof (cases "k = req")
      case True
      with j k have "j = i" by simp
      with upd True have "workloadInstances w' k =
        Some (i\<lparr>Status := (Status i)\<lparr>PreDeploymentPhase := PreDeploymentPhase (Status (setFinished i t)),
                      PreDeploymentTaskName := PreDeploymentTaskName (Status i)\<rparr>\<rparr>)"
        using finished by simp
      with True j \<open>j = i\<close> setFinished_terminal [of i t] show ?thesis by blast
    next
      case False
      with upd k have "workloadInstances w' k = Some i" by simp
      with same show ?thesis by metis
    qed
  qed
qed

subsection \<open>Passes in which the store answers from its contents\<close>

lemma nextFault_none: "faults w = [] \<Longrightarrow> nextFault w = (None, w)"
  by (simp add: nextFault_def)

lemma Reconcile_k8sEvents:
  assumes rec: "Reconcile api w req = (r, w')"
  shows "k8sEvents w' = k8sEvents w \<or>
    (\<exists>i nm. workloadInstances w req = Some i \<and>
       k8sEvents w' = k8sEvents w @ [fst (generateK8sEvent w (setStarted i nm) ''started'')]) \<or>
    (\<exists>i t. workloadInstances w req = Some i \<and>
       k8sEvents w' = k8sEvents w @ [fst (generateK8sEvent w (setFinished i t) ''finished'')])"
proof -
  from Reconcile_outcome [OF rec] consider
    (same) "view w' = view w"
    | (start) i where "workloadInstances w req = Some i" "startOutcome w i r w'"
    | (poll) i where "workloadInstances w req = Some i" "pollOutcome api w i r w'"
    by (auto split: if_splits)
  then show ?thesis
  proof cases
    case same
    then show ?thesis by (simp add: view_def)
  next
    case (start i)
    from start(2) have "k8sEvents w' = k8sEvents w \<or>
      (\<exists>nm. k8sEvents w' =
         k8sEvents w @ [fst (generateK8sEvent w (setStarted i nm) ''started'')])"
      unfolding startOutcome_def view_def by auto
    with start(1) show ?thesis by blast
  next
    case (poll i)
    from poll(2) have "k8sEvents w' = k8sEvents w \<or>
      (\<exists>t. k8sEvents w' =
         k8sEvents w @ [fst (generateK8sEvent w (setFinished i t) ''finished'')])"
      unfolding pollOutcome_def view_def by auto
    with poll(1) show ?thesis by blast
  qed
qed

lemma Reconcile_terminal:
  assumes wk: "wellKeyed w" and api: "keepsTerminal api"
    and rec: "Reconcile api w req = (r, w')"
    and k: "workloadInstances w k = Some i"
  shows "\<exists>i'. workloadInstances w' k = Some i' \<and>
    (isTerminal (PreDeploymentPhase (Status i)) \<longrightarrow> isTerminal (PreDeploymentPhase (Status i'))) \<and>
    PostDeploymentPhase (Status i') = PostDeploymentPhase (Status i)"
proof -
  from Reconcile_status [OF wk rec k] obtain p n where
    i': "workloadInstances w' k =
      Some (i\<lparr>Status := (Status i)\<lparr>PreDeploymentPhase := p, PreDeploymentTaskName := n\<rparr>\<rparr>)"
    and pn: "p = PreDeploymentPhase (Status i) \<or>
     (\<not> IsCompleted api i \<and> IsDeploymentCheckNotCreated api i) \<or> isTerminal p"
    by blast
  from pn api have "isTerminal (PreDeploymentPhase (Status i)) \<longrightarrow> isTerminal p"
    unfolding keepsTerminal_def by blast
  with i' show ?thesis by simp
qed

lemma act_terminal:
  assumes wk: "wellKeyed w" and api: "keepsTerminal api"
    and k: "workloadInstances w k = Some i"
  shows "wellKeyed (act api w a) \<and>
    (\<exists>i'. workloadInstances (act api w a) k = Some i' \<and>
      (isTerminal (PreDeploymentPhase (Status i)) \<longrightarrow>
         isTerminal (PreDeploymentPhase (Status i'))) \<and>
      PostDeploymentPhase (Status i') = PostDeploymentPhase (Status i))"
proof (cases a)
  case (ReconcileCall req)
  have rec: "Reconcile api w req = (fst (Reconcile api w req), act api w a)"
    using ReconcileCall by simp
  from wellKeyed_Reconcile [OF wk rec] Reconcile_terminal [OF wk api rec k]
  show ?thesis by blast
next
  case (ExecutorReports key phase)
  show ?thesis
  proof (cases "events w key")
    case None
    with ExecutorReports wk k show ?thesis by simp
  next
    case (Some t)
    let ?t = "t\<lparr>Event_Status := \<lparr>Phase = phase\<rparr>\<rparr>"
    from Some ExecutorReports
    have w': "act api w a = w\<lparr>events := (events w)(key \<mapsto> ?t)\<rparr>" by simp
    have "keyOf (Event_ObjectMeta u) = q" if "((events w)(key \<mapsto> ?t)) q = Some u" for q u
    proof (cases "q = key")
      case True
      with that have "u = ?t" by simp
      with wellKeyed_task [OF wk Some] True show ?thesis by simp
    next
      case False
      with that have "events w q = Some u" by simp
      with wellKeyed_task [OF wk] show ?thesis by simp
    qed
    moreover have "keyOf (ObjectMeta j) = q" if "workloadInstances w q = Some j" for q j
      using wellKeyed_instance [OF wk that] .
    ultimately have "wellKeyed (act api w a)"
      unfolding w' wellKeyed_def by simp
    with w' k show ?thesis by simp
  qed
next
  case (StoreWillFail fs)
  have "wellKeyed (w\<lparr>faults := fs\<rparr>)"
    using wk unfolding wellKeyed_def by simp
  with StoreWillFail k show ?thesis by simp
qed

lemma wellKeyed_cluster_one:
  "wellKeyed (cluster (checkoutWith p n) [(''ns'', nm) \<mapsto> scanTask nm ph] fs)"
  unfolding wellKeyed_def
  by (auto simp: cluster_def checkoutWith_def scanTask_def keyOf_def split: if_splits)

lemma keepsTerminal_specApi: "keepsTerminal specApi"
  by (auto simp: keepsTerminal_def specApi_def isTerminal_def WorkloadInstanceNotStarted_def
        WorkloadInstanceSucceeded_def WorkloadInstanceFailed_def)

text \<open>
  The pass that starts the checks, when the store answers from its contents and the first
  generated name is free: one Check Task with the pre-deployment payload is created under
  that name, the phase becomes Running with that name, the "started" event is appended,
  and the pass asks to be requeued after five seconds.
\<close>

lemma Reconcile_starts_checks:
  fixes i :: KeptnWorkloadInstance
  assumes wk: "wellKeyed w"
    and nf: "faults w = []"
    and i: "workloadInstances w req = Some i"
    and nc: "\<not> IsCompleted api i"
    and cr: "IsDeploymentCheckNotCreated api i"
    and nm: "nm = Name (ObjectMeta i) @ ''-'' @ take 10 (uuidSource w (uuidsDrawn w))"
    and free: "events w (Namespace (ObjectMeta i), nm) = None"
  shows "\<exists>started.
    Message started = ''pre-deployment checks are started'' \<and>
    Reason started = WorkloadInstanceRunning \<and>
    Reconcile api w req =
      (Inr \<lparr>Requeue = True, RequeueAfter = 5 * Second\<rparr>,
       w\<lparr>workloadInstances := (workloadInstances w)
            (req \<mapsto> i\<lparr>Status := (Status i)
               \<lparr>PreDeploymentPhase := WorkloadInstanceRunning,
                PreDeploymentTaskName := nm\<rparr>\<rparr>),
         events := (events w)((Namespace (ObjectMeta i), nm) \<mapsto> checkTask i nm),
         k8sEvents := k8sEvents w @ [started],
         uuidsDrawn := Suc (uuidsDrawn w),
         clockReads := clockReads w + 3\<rparr>)"
proof -
  from wellKeyed_instance [OF wk i] have ki: "keyOf (ObjectMeta i) = req" .
  let ?e = "fst (generateK8sEvent w (setStarted i nm) ''started'')"
  have st: "setStarted i nm = i\<lparr>Status := (Status i)
               \<lparr>PreDeploymentPhase := WorkloadInstanceRunning,
                PreDeploymentTaskName := nm\<rparr>\<rparr>"
    by (simp add: setStarted_def)
  have ks: "keyOf (ObjectMeta (setStarted i nm)) = req"
    using ki by (simp add: setStarted_def)
  have get: "Get_KeptnWorkloadInstance w req = (Inr i, w)"
    using nf i by (simp add: Get_KeptnWorkloadInstance_def nextFault_none)
  let ?w1 = "w\<lparr>uuidsDrawn := Suc (uuidsDrawn w)\<rparr>"
  let ?w2 = "?w1\<lparr>events := (events w)((Namespace (ObjectMeta i), nm) \<mapsto> checkTask i nm)\<rparr>"
  have cre: "Create_Event ?w1 (checkTask i nm) = (None, ?w2)"
    using nf free by (simp add: Create_Event_def nextFault_none keyOf_def checkTask_def)
  have start: "startPreDeploymentChecks w i = (Inr nm, ?w2)"
    using cre nm
    by (simp add: startPreDeploymentChecks_def generateSuffix_def numeral_eq_Suc checkTask_def)
  let ?w3 = "?w2\<lparr>clockReads := clockReads w + 3\<rparr>"
  have gen: "generateK8sEvent ?w2 (setStarted i nm) ''started'' = (?e, ?w3)"
    by (simp add: generateK8sEvent_def timeNow_def numeral_3_eq_3)
  let ?w4 = "?w3\<lparr>k8sEvents := k8sEvents w @ [?e]\<rparr>"
  have emit: "Create_K8sEvent ?w3 ?e = (None, ?w4)"
    using nf by (simp add: Create_K8sEvent_def nextFault_none)
  let ?w5 = "?w4\<lparr>workloadInstances := (workloadInstances w)(req \<mapsto> setStarted i nm)\<rparr>"
  have upd: "Status_Update ?w4 (setStarted i nm) = (None, ?w5)"
    using nf i ks by (simp add: Status_Update_def nextFault_none setStarted_def)
  have rec: "Reconcile api w req = (Inr \<lparr>Requeue = True, RequeueAfter = 5 * Second\<rparr>, ?w5)"
    using nc cr get start gen emit upd by (simp add: Reconcile_def)
  have "Message ?e = ''pre-deployment checks are started''"
    by (simp add: generateK8sEvent_def timeNow_def)
  moreover have "Reason ?e = WorkloadInstanceRunning"
    by (simp add: generateK8sEvent_def timeNow_def setStarted_def)
  moreover have "Reconcile api w req =
      (Inr \<lparr>Requeue = True, RequeueAfter = 5 * Second\<rparr>,
       w\<lparr>workloadInstances := (workloadInstances w)
            (req \<mapsto> i\<lparr>Status := (Status i)
               \<lparr>PreDeploymentPhase := WorkloadInstanceRunning,
                PreDeploymentTaskName := nm\<rparr>\<rparr>),
         events := (events w)((Namespace (ObjectMeta i), nm) \<mapsto> checkTask i nm),
         k8sEvents := k8sEvents w @ [?e],
         uuidsDrawn := Suc (uuidsDrawn w),
         clockReads := clockReads w + 3\<rparr>)"
    using rec st by simp
  ultimately show ?thesis by blast
qed

subsection \<open>The claims\<close>

text \<open>
  C1, as amended. A reconcile pass never touches the post-deployment side: every stored
  WorkloadInstance keeps its post-deployment phase and its post-deployment task name, and
  a Check Task that exists after the pass and did not exist before carries the
  pre-deployment payload of the reconciled instance. No pass sets the post-deployment
  phase to Failed, whatever the pre-deployment phase is.
\<close>

theorem C1_post_deployment_untouched:
  assumes "wellKeyed w" and "Reconcile api w req = (r, w')"
  shows "(\<forall>k i. workloadInstances w k = Some i \<longrightarrow>
            (\<exists>i'. workloadInstances w' k = Some i' \<and>
               PostDeploymentPhase (Status i') = PostDeploymentPhase (Status i) \<and>
               PostDeploymentTaskName (Status i') = PostDeploymentTaskName (Status i))) \<and>
         (\<forall>k t. events w k = None \<longrightarrow> events w' k = Some t \<longrightarrow>
            (\<exists>i. workloadInstances w req = Some i \<and>
               JobSpec (Event_Spec t) = JobSpec (PreDeploymentCheck (Spec i))))"
proof (intro conjI allI impI)
  fix k i
  assume "workloadInstances w k = Some i"
  from Reconcile_status [OF assms this] obtain p n where
    "workloadInstances w' k =
      Some (i\<lparr>Status := (Status i)\<lparr>PreDeploymentPhase := p, PreDeploymentTaskName := n\<rparr>\<rparr>)"
    by blast
  then show "\<exists>i'. workloadInstances w' k = Some i' \<and>
               PostDeploymentPhase (Status i') = PostDeploymentPhase (Status i) \<and>
               PostDeploymentTaskName (Status i') = PostDeploymentTaskName (Status i)"
    by simp
next
  fix k t
  assume none: "events w k = None" and some: "events w' k = Some t"
  have "events w' = events w \<or>
      (\<exists>i nm. workloadInstances w req = Some i \<and>
         events w' = (events w)((Namespace (ObjectMeta i), nm) \<mapsto> checkTask i nm)) \<or>
      (\<exists>d::Event. events w' = (events w)(keyOf (Event_ObjectMeta d) := None))"
    using Reconcile_events [OF assms(2)] by blast
  then show "\<exists>i. workloadInstances w req = Some i \<and>
               JobSpec (Event_Spec t) = JobSpec (PreDeploymentCheck (Spec i))"
  proof (elim disjE exE conjE)
    assume "events w' = events w"
    with none some show ?thesis by simp
  next
    fix i nm
    assume i: "workloadInstances w req = Some i"
      and new: "events w' = (events w)((Namespace (ObjectMeta i), nm) \<mapsto> checkTask i nm)"
    from new none some have "t = checkTask i nm" by (simp split: if_splits)
    with i show ?thesis by (simp add: checkTask_def)
  next
    fix d :: Event
    assume "events w' = (events w)(keyOf (Event_ObjectMeta d) := None)"
    with none some show ?thesis by (simp split: if_splits)
  qed
qed

text \<open>A pass that finds the Check Task failed leaves the post-deployment fields alone.\<close>

theorem C1_post_deployment_untouched_witness:
  "wellKeyed (cluster (checkoutWith WorkloadInstanceRunning ''checkout-00000000-0'')
      [(''ns'', ''checkout-00000000-0'') \<mapsto> scanTask ''checkout-00000000-0'' EventFailed] []) \<and>
   (\<exists>i'. workloadInstances
        (snd (Reconcile specApi
           (cluster (checkoutWith WorkloadInstanceRunning ''checkout-00000000-0'')
              [(''ns'', ''checkout-00000000-0'') \<mapsto> scanTask ''checkout-00000000-0'' EventFailed] [])
           (''ns'', ''checkout''))) (''ns'', ''checkout'') = Some i' \<and>
      PostDeploymentPhase (Status i') = WorkloadInstanceNotStarted \<and>
      PostDeploymentTaskName (Status i') = [])"
proof -
  let ?w = "cluster (checkoutWith WorkloadInstanceRunning ''checkout-00000000-0'')
      [(''ns'', ''checkout-00000000-0'') \<mapsto> scanTask ''checkout-00000000-0'' EventFailed] []"
  have wk: "wellKeyed ?w" by (rule wellKeyed_cluster_one)
  have rec: "Reconcile specApi ?w (''ns'', ''checkout'') =
      (fst (Reconcile specApi ?w (''ns'', ''checkout'')),
       snd (Reconcile specApi ?w (''ns'', ''checkout'')))" by simp
  have stored: "workloadInstances ?w (''ns'', ''checkout'') =
      Some (checkoutWith WorkloadInstanceRunning ''checkout-00000000-0'')"
    by (simp add: cluster_def)
  have post: "PostDeploymentPhase (Status (checkoutWith WorkloadInstanceRunning ''checkout-00000000-0''))
      = WorkloadInstanceNotStarted"
    "PostDeploymentTaskName (Status (checkoutWith WorkloadInstanceRunning ''checkout-00000000-0'')) = []"
    by (simp_all add: checkoutWith_def)
  from C1_post_deployment_untouched [OF wk rec] stored
  have "\<exists>i'. workloadInstances (snd (Reconcile specApi ?w (''ns'', ''checkout'')))
           (''ns'', ''checkout'') = Some i' \<and>
      PostDeploymentPhase (Status i') =
        PostDeploymentPhase (Status (checkoutWith WorkloadInstanceRunning ''checkout-00000000-0'')) \<and>
      PostDeploymentTaskName (Status i') =
        PostDeploymentTaskName (Status (checkoutWith WorkloadInstanceRunning ''checkout-00000000-0''))"
    by blast
  with wk show ?thesis unfolding post by blast
qed

text \<open>
  C1 as stated fails: the pass that moves the pre-deployment phase to Failed leaves the
  post-deployment phase NotStarted, and so does a further pass on the instance whose
  pre-deployment phase is Failed.
\<close>

theorem C1_counterexample:
  "map_option (\<lambda>i. (PreDeploymentPhase (Status i), PostDeploymentPhase (Status i)))
     (workloadInstances
        (snd (Reconcile specApi
                (cluster (checkoutWith WorkloadInstanceRunning ''checkout-00000000-0'')
                   [(''ns'', ''checkout-00000000-0'') \<mapsto>
                      scanTask ''checkout-00000000-0'' EventFailed] [])
                (''ns'', ''checkout''))) (''ns'', ''checkout'')) =
     Some (WorkloadInstanceFailed, WorkloadInstanceNotStarted) \<and>
   map_option (\<lambda>i. (PreDeploymentPhase (Status i), PostDeploymentPhase (Status i)))
     (workloadInstances
        (snd (Reconcile specApi
                (cluster (checkoutWith WorkloadInstanceFailed ''checkout-00000000-0'') Map.empty [])
                (''ns'', ''checkout''))) (''ns'', ''checkout'')) =
     Some (WorkloadInstanceFailed, WorkloadInstanceNotStarted) \<and>
   WorkloadInstanceNotStarted \<noteq> WorkloadInstanceFailed"
  by (simp add: sample_defs phase_defs store_defs controller_defs numeral_eq_Suc)

text \<open>
  C2. Task creation must return an error when \<^verbatim>\<open>Create\<close> reports a name conflict on all
  five attempted names. With the first five names taken, \<^verbatim>\<open>startPreDeploymentChecks\<close>
  instead returns the sixth generated name as its result, and no Check Task of that name
  exists.
\<close>

theorem C2_retries_exhausted:
  "fst (startPreDeploymentChecks (cluster (checkoutWith WorkloadInstanceNotStarted '''') fiveTaken [])
          (checkoutWith WorkloadInstanceNotStarted '''')) = Inr ''checkout-55555555-5'' \<and>
   events (snd (startPreDeploymentChecks
                  (cluster (checkoutWith WorkloadInstanceNotStarted '''') fiveTaken [])
                  (checkoutWith WorkloadInstanceNotStarted ''''))) (''ns'', ''checkout-55555555-5'') = None"
  by (simp add: sample_defs phase_defs store_defs controller_defs numeral_eq_Suc)

text \<open>
  C3. An error other than NotFound from the \<^verbatim>\<open>Get\<close> of the Check Task must surface as an
  error of the pass. Here the store answers the first \<^verbatim>\<open>Get\<close> and fails the second with
  Unavailable; the pass returns a requeue after five seconds and no error, although the
  Check Task has succeeded.
\<close>

theorem C3_get_error_swallowed:
  "fst (Reconcile specApi
          (cluster (checkoutWith WorkloadInstanceRunning ''checkout-00000000-0'')
             [(''ns'', ''checkout-00000000-0'') \<mapsto> scanTask ''checkout-00000000-0'' EventSucceeded]
             [None, Some Unavailable])
          (''ns'', ''checkout'')) = Inr \<lparr>Requeue = True, RequeueAfter = 5 * Second\<rparr>"
  by (simp add: sample_defs phase_defs store_defs controller_defs numeral_eq_Suc)

text \<open>
  C4, as amended. When the Check Task named in the status is gone while the instance is
  neither completed nor lacking its checks (the phase is still Running) and the store
  answers from its contents, the pass returns the NotFound error and changes nothing: no
  terminal phase is persisted.
\<close>

theorem C4_missing_task_is_error:
  fixes i :: KeptnWorkloadInstance
  assumes "faults w = []"
    and "workloadInstances w req = Some i"
    and "\<not> IsCompleted api i"
    and "\<not> IsDeploymentCheckNotCreated api i"
    and "events w (Namespace (ObjectMeta i), PreDeploymentTaskName (Status i)) = None"
  shows "Reconcile api w req = (Inl (StoreError NotFound), w)"
  using assms
  by (simp add: Reconcile_def Get_KeptnWorkloadInstance_def getPreDeploymentChecksEvent_def
        Get_Event_def nextFault_none)

text \<open>The instance \<open>checkout\<close>, Running, whose Check Task is no longer stored.\<close>

theorem C4_missing_task_is_error_witness:
  "faults (cluster (checkoutWith WorkloadInstanceRunning ''checkout-00000000-0'') Map.empty []) = [] \<and>
   workloadInstances (cluster (checkoutWith WorkloadInstanceRunning ''checkout-00000000-0'')
       Map.empty []) (''ns'', ''checkout'') =
     Some (checkoutWith WorkloadInstanceRunning ''checkout-00000000-0'') \<and>
   \<not> IsCompleted specApi (checkoutWith WorkloadInstanceRunning ''checkout-00000000-0'') \<and>
   \<not> IsDeploymentCheckNotCreated specApi
       (checkoutWith WorkloadInstanceRunning ''checkout-00000000-0'') \<and>
   Reconcile specApi
     (cluster (checkoutWith WorkloadInstanceRunning ''checkout-00000000-0'') Map.empty [])
     (''ns'', ''checkout'') =
   (Inl (StoreError NotFound),
    cluster (checkoutWith WorkloadInstanceRunning ''checkout-00000000-0'') Map.empty [])"
proof -
  let ?i = "checkoutWith WorkloadInstanceRunning ''checkout-00000000-0''"
  let ?w = "cluster ?i Map.empty []"
  have nf: "faults ?w = []" by (simp add: cluster_def)
  have stored: "workloadInstances ?w (''ns'', ''checkout'') = Some ?i" by (simp add: cluster_def)
  have nc: "\<not> IsCompleted specApi ?i"
    by (simp add: specApi_def checkoutWith_def isTerminal_def WorkloadInstanceRunning_def
          WorkloadInstanceSucceeded_def WorkloadInstanceFailed_def)
  have cr: "\<not> IsDeploymentCheckNotCreated specApi ?i"
    by (simp add: specApi_def checkoutWith_def WorkloadInstanceRunning_def
          WorkloadInstanceNotStarted_def)
  have gone: "events ?w (Namespace (ObjectMeta ?i), PreDeploymentTaskName (Status ?i)) = None"
    by (simp add: cluster_def)
  from C4_missing_task_is_error [OF nf stored nc cr gone] nf stored nc cr show ?thesis by blast
qed

text \<open>
  C4 as stated fails: replaying the pass after the Check Task was deleted returns an
  error and the phase stays Running.
\<close>

theorem C4_counterexample:
  "fst (Reconcile specApi
          (cluster (checkoutWith WorkloadInstanceRunning ''checkout-00000000-0'') Map.empty [])
          (''ns'', ''checkout'')) = Inl (StoreError NotFound) \<and>
   map_option (\<lambda>i. PreDeploymentPhase (Status i))
     (workloadInstances
        (snd (Reconcile specApi
                (cluster (checkoutWith WorkloadInstanceRunning ''checkout-00000000-0'') Map.empty [])
                (''ns'', ''checkout''))) (''ns'', ''checkout'')) = Some WorkloadInstanceRunning"
  by (simp add: sample_defs phase_defs store_defs controller_defs numeral_eq_Suc)

text \<open>
  C5, as amended. After a pass, every stored WorkloadInstance has its status unchanged, or
  the phase Running with a non-empty task name, or a terminal phase with the task name it
  had before; so a Running phase always comes with a non-empty task name, and a pass that
  sets a terminal phase does not empty the task name.
\<close>

theorem C5_task_name_kept:
  assumes "wellKeyed w" and "Reconcile api w req = (r, w')"
    and "workloadInstances w k = Some i"
  shows "\<exists>i'. workloadInstances w' k = Some i' \<and>
    (Status i' = Status i \<or>
     PreDeploymentPhase (Status i') = WorkloadInstanceRunning \<and>
       PreDeploymentTaskName (Status i') \<noteq> [] \<or>
     isTerminal (PreDeploymentPhase (Status i')) \<and>
       PreDeploymentTaskName (Status i') = PreDeploymentTaskName (Status i)) \<and>
    ((PreDeploymentPhase (Status i) = WorkloadInstanceRunning \<longrightarrow>
        PreDeploymentTaskName (Status i) \<noteq> []) \<longrightarrow>
     (PreDeploymentPhase (Status i') = WorkloadInstanceRunning \<longrightarrow>
        PreDeploymentTaskName (Status i') \<noteq> []))"
proof -
  from Reconcile_status [OF assms] obtain p n where
    i': "workloadInstances w' k =
      Some (i\<lparr>Status := (Status i)\<lparr>PreDeploymentPhase := p, PreDeploymentTaskName := n\<rparr>\<rparr>)"
    and pn: "(p = PreDeploymentPhase (Status i) \<and> n = PreDeploymentTaskName (Status i)) \<or>
     (p = WorkloadInstanceRunning \<and> (\<exists>s. n = Name (ObjectMeta i) @ ''-'' @ s)) \<or>
     (isTerminal p \<and> n = PreDeploymentTaskName (Status i))"
    by blast
  let ?i' = "i\<lparr>Status := (Status i)\<lparr>PreDeploymentPhase := p, PreDeploymentTaskName := n\<rparr>\<rparr>"
  from pn have "(Status ?i' = Status i \<or>
     PreDeploymentPhase (Status ?i') = WorkloadInstanceRunning \<and>
       PreDeploymentTaskName (Status ?i') \<noteq> [] \<or>
     isTerminal (PreDeploymentPhase (Status ?i')) \<and>
       PreDeploymentTaskName (Status ?i') = PreDeploymentTaskName (Status i))"
    by auto
  moreover from pn have "(PreDeploymentPhase (Status i) = WorkloadInstanceRunning \<longrightarrow>
        PreDeploymentTaskName (Status i) \<noteq> []) \<longrightarrow>
     (PreDeploymentPhase (Status ?i') = WorkloadInstanceRunning \<longrightarrow>
        PreDeploymentTaskName (Status ?i') \<noteq> [])"
    by (auto dest: terminal_not_running)
  ultimately show ?thesis using i' by blast
qed

text \<open>The pass that finds the Check Task of \<open>checkout\<close> succeeded.\<close>

theorem C5_task_name_kept_witness:
  "wellKeyed (cluster (checkoutWith WorkloadInstanceRunning ''checkout-00000000-0'')
      [(''ns'', ''checkout-00000000-0'') \<mapsto> scanTask ''checkout-00000000-0'' EventSucceeded] []) \<and>
   (\<exists>i'. workloadInstances
        (snd (Reconcile specApi
           (cluster (checkoutWith WorkloadInstanceRunning ''checkout-00000000-0'')
              [(''ns'', ''checkout-00000000-0'') \<mapsto> scanTask ''checkout-00000000-0'' EventSucceeded] [])
           (''ns'', ''checkout''))) (''ns'', ''checkout'') = Some i' \<and>
      (Status i' = Status (checkoutWith WorkloadInstanceRunning ''checkout-00000000-0'') \<or>
       PreDeploymentPhase (Status i') = WorkloadInstanceRunning \<and>
         PreDeploymentTaskName (Status i') \<noteq> [] \<or>
       isTerminal (PreDeploymentPhase (Status i')) \<and>
         PreDeploymentTaskName (Status i') = ''checkout-00000000-0''))"
proof -
  let ?w = "cluster (checkoutWith WorkloadInstanceRunning ''checkout-00000000-0'')
      [(''ns'', ''checkout-00000000-0'') \<mapsto> scanTask ''checkout-00000000-0'' EventSucceeded] []"
  have wk: "wellKeyed ?w" by (rule wellKeyed_cluster_one)
  have rec: "Reconcile specApi ?w (''ns'', ''checkout'') =
      (fst (Reconcile specApi ?w (''ns'', ''checkout'')),
       snd (Reconcile specApi ?w (''ns'', ''checkout'')))" by simp
  have stored: "workloadInstances ?w (''ns'', ''checkout'') =
      Some (checkoutWith WorkloadInstanceRunning ''checkout-00000000-0'')"
    by (simp add: cluster_def)
  have nm: "PreDeploymentTaskName (Status (checkoutWith WorkloadInstanceRunning ''checkout-00000000-0''))
     = ''checkout-00000000-0''" by (simp add: checkoutWith_def)
  from C5_task_name_kept [OF wk rec stored] wk show ?thesis unfolding nm by blast
qed

text \<open>
  C5 as stated fails: the invariant holds before the pass that finds the Check Task
  succeeded, and after it the phase is Succeeded while the task name is still set.
\<close>

theorem C5_counterexample:
  "taskNameInvariant (checkoutWith WorkloadInstanceRunning ''checkout-00000000-0'') \<and>
   map_option (\<lambda>i. (PreDeploymentPhase (Status i), PreDeploymentTaskName (Status i),
                     taskNameInvariant i))
     (workloadInstances
        (snd (Reconcile specApi
                (cluster (checkoutWith WorkloadInstanceRunning ''checkout-00000000-0'')
                   [(''ns'', ''checkout-00000000-0'') \<mapsto>
                      scanTask ''checkout-00000000-0'' EventSucceeded] [])
                (''ns'', ''checkout''))) (''ns'', ''checkout'')) =
     Some (WorkloadInstanceSucceeded, ''checkout-00000000-0'', False)"
  by (simp add: taskNameInvariant_def sample_defs phase_defs store_defs controller_defs numeral_eq_Suc)

text \<open>
  C6. Over any sequence of reconcile passes, interleaved with the task executor's reports
  and with store failures, a pre-deployment phase that is terminal stays terminal, and so
  does a post-deployment phase.
\<close>

theorem C6_terminal_phases_absorbing:
  assumes "wellKeyed w" and "keepsTerminal api" and "workloadInstances w k = Some i"
  shows "\<exists>i'. workloadInstances (run api w acts) k = Some i' \<and>
    (isTerminal (PreDeploymentPhase (Status i)) \<longrightarrow>
       isTerminal (PreDeploymentPhase (Status i'))) \<and>
    (isTerminal (PostDeploymentPhase (Status i)) \<longrightarrow>
       isTerminal (PostDeploymentPhase (Status i')))"
  using assms unfolding run_def
proof (induction acts arbitrary: w i)
  case Nil
  then show ?case by simp
next
  case (Cons a acts)
  from act_terminal [OF Cons.prems(1,2,3), of a] obtain j where
    wk': "wellKeyed (act api w a)"
    and j: "workloadInstances (act api w a) k = Some j"
    and pre: "isTerminal (PreDeploymentPhase (Status i)) \<longrightarrow>
                isTerminal (PreDeploymentPhase (Status j))"
    and post: "PostDeploymentPhase (Status j) = PostDeploymentPhase (Status i)"
    by blast
  from Cons.IH [OF wk' Cons.prems(2) j] obtain i' where
    "workloadInstances (foldl (act api) (act api w a) acts) k = Some i'"
    "isTerminal (PreDeploymentPhase (Status j)) \<longrightarrow> isTerminal (PreDeploymentPhase (Status i'))"
    "isTerminal (PostDeploymentPhase (Status j)) \<longrightarrow> isTerminal (PostDeploymentPhase (Status i'))"
    by blast
  with pre post show ?case by auto
qed

text \<open>
  Two passes on \<open>checkout\<close> with the pre-deployment phase Failed, the executor
  reporting in between.
\<close>

theorem C6_terminal_phases_absorbing_witness:
  "wellKeyed (cluster (checkoutWith WorkloadInstanceFailed ''checkout-00000000-0'')
      [(''ns'', ''checkout-00000000-0'') \<mapsto> scanTask ''checkout-00000000-0'' EventRunning] []) \<and>
   keepsTerminal specApi \<and>
   isTerminal (PreDeploymentPhase (Status (checkoutWith WorkloadInstanceFailed ''checkout-00000000-0''))) \<and>
   (\<exists>i'. workloadInstances
        (run specApi
           (cluster (checkoutWith WorkloadInstanceFailed ''checkout-00000000-0'')
              [(''ns'', ''checkout-00000000-0'') \<mapsto> scanTask ''checkout-00000000-0'' EventRunning] [])
           [ReconcileCall (''ns'', ''checkout''),
            ExecutorReports (''ns'', ''checkout-00000000-0'') EventSucceeded,
            ReconcileCall (''ns'', ''checkout'')])
        (''ns'', ''checkout'') = Some i' \<and>
      isTerminal (PreDeploymentPhase (Status i')))"
proof -
  let ?i = "checkoutWith WorkloadInstanceFailed ''checkout-00000000-0''"
  let ?w = "cluster ?i
      [(''ns'', ''checkout-00000000-0'') \<mapsto> scanTask ''checkout-00000000-0'' EventRunning] []"
  have wk: "wellKeyed ?w" by (rule wellKeyed_cluster_one)
  have stored: "workloadInstances ?w (''ns'', ''checkout'') = Some ?i" by (simp add: cluster_def)
  have fin: "isTerminal (PreDeploymentPhase (Status ?i))"
    by (simp add: checkoutWith_def isTerminal_def)
  from C6_terminal_phases_absorbing [OF wk keepsTerminal_specApi stored] fin wk
    keepsTerminal_specApi
  show ?thesis by blast
qed

text \<open>
  C7. A pass that starts the checks must create exactly one Check Task, or return an error
  when the creation fails. With the first five names taken, the pass creates no Check
  Task and still sets the phase to Running, stores the sixth name, and returns a requeue
  after five seconds.
\<close>

theorem C7_started_without_task:
  "fst (Reconcile specApi (cluster (checkoutWith WorkloadInstanceNotStarted '''') fiveTaken [])
          (''ns'', ''checkout'')) = Inr \<lparr>Requeue = True, RequeueAfter = 5 * Second\<rparr> \<and>
   map_option (\<lambda>i. (PreDeploymentPhase (Status i), PreDeploymentTaskName (Status i)))
     (workloadInstances
        (snd (Reconcile specApi (cluster (checkoutWith WorkloadInstanceNotStarted '''') fiveTaken [])
                (''ns'', ''checkout''))) (''ns'', ''checkout'')) =
     Some (WorkloadInstanceRunning, ''checkout-55555555-5'') \<and>
   events (snd (Reconcile specApi (cluster (checkoutWith WorkloadInstanceNotStarted '''') fiveTaken [])
                  (''ns'', ''checkout''))) = fiveTaken"
  by (simp add: sample_defs phase_defs store_defs controller_defs numeral_eq_Suc)

text \<open>
  C8. When the Check Task named in the status is fetched and the store answers from its
  contents: if the task is not completed the pass returns a requeue after five seconds
  and changes nothing; if it is completed the pass maps Succeeded to Succeeded and Failed
  to Failed, deletes the Check Task, persists the status, appends the "finished" audit
  event whose reason is the new phase, and returns done.
\<close>

theorem C8_poll:
  fixes i :: KeptnWorkloadInstance and t :: Event
  assumes wk: "wellKeyed w"
    and nf: "faults w = []"
    and i: "workloadInstances w req = Some i"
    and nc: "\<not> IsCompleted api i"
    and cr: "\<not> IsDeploymentCheckNotCreated api i"
    and t: "events w (Namespace (ObjectMeta i), PreDeploymentTaskName (Status i)) = Some t"
  shows "(\<not> Event_IsCompleted api t \<longrightarrow>
            Reconcile api w req = (Inr \<lparr>Requeue = True, RequeueAfter = 5 * Second\<rparr>, w)) \<and>
         (Event_IsCompleted api t \<longrightarrow>
            (\<exists>phase finished.
               (Phase (Event_Status t) = EventSucceeded \<longrightarrow> phase = WorkloadInstanceSucceeded) \<and>
               (Phase (Event_Status t) = EventFailed \<longrightarrow> phase = WorkloadInstanceFailed) \<and>
               isTerminal phase \<and>
               Message finished = ''pre-deployment checks are finished'' \<and>
               Reason finished = phase \<and>
               Reconcile api w req =
                 (Inr \<lparr>Requeue = False, RequeueAfter = 0\<rparr>,
                  w\<lparr>workloadInstances := (workloadInstances w)
                       (req \<mapsto> i\<lparr>Status := (Status i)\<lparr>PreDeploymentPhase := phase\<rparr>\<rparr>),
                    events := (events w)
                       ((Namespace (ObjectMeta i), PreDeploymentTaskName (Status i)) := None),
                    k8sEvents := k8sEvents w @ [finished],
                    clockReads := clockReads w + 3\<rparr>)))"
proof (intro conjI impI)
  assume "\<not> Event_IsCompleted api t"
  with nf i nc cr t
  show "Reconcile api w req = (Inr \<lparr>Requeue = True, RequeueAfter = 5 * Second\<rparr>, w)"
    by (simp add: Reconcile_def Get_KeptnWorkloadInstance_def getPreDeploymentChecksEvent_def
          Get_Event_def nextFault_none)
next
  assume cmpl: "Event_IsCompleted api t"
  from wellKeyed_instance [OF wk i] have ki: "keyOf (ObjectMeta i) = req" .
  from wellKeyed_task [OF wk t]
  have kt: "keyOf (Event_ObjectMeta t) =
              (Namespace (ObjectMeta i), PreDeploymentTaskName (Status i))" .
  let ?phase = "PreDeploymentPhase (Status (setFinished i t))"
  let ?e = "fst (generateK8sEvent w (setFinished i t) ''finished'')"
  have fin: "setFinished i t = i\<lparr>Status := (Status i)\<lparr>PreDeploymentPhase := ?phase\<rparr>\<rparr>"
    by (simp add: setFinished_def)
  have kf: "keyOf (ObjectMeta (setFinished i t)) = req"
    using ki by (simp add: setFinished_def)
  have get: "Get_KeptnWorkloadInstance w req = (Inr i, w)"
    using nf i by (simp add: Get_KeptnWorkloadInstance_def nextFault_none)
  have gett: "getPreDeploymentChecksEvent w i = (Inr t, w)"
    using nf t by (simp add: getPreDeploymentChecksEvent_def Get_Event_def nextFault_none)
  let ?w3 = "w\<lparr>events := (events w)
               ((Namespace (ObjectMeta i), PreDeploymentTaskName (Status i)) := None)\<rparr>"
  have del: "Delete_Event w t = (None, ?w3)"
    using nf t kt by (simp add: Delete_Event_def nextFault_none)
  let ?w4 = "?w3\<lparr>workloadInstances := (workloadInstances w)(req \<mapsto> setFinished i t)\<rparr>"
  have upd: "Status_Update ?w3 (setFinished i t) = (None, ?w4)"
    using nf i kf by (simp add: Status_Update_def nextFault_none setFinished_def)
  let ?w5 = "?w4\<lparr>clockReads := clockReads w + 3\<rparr>"
  have gen: "generateK8sEvent ?w4 (setFinished i t) ''finished'' = (?e, ?w5)"
    by (simp add: generateK8sEvent_def timeNow_def numeral_3_eq_3)
  have cre: "Create_K8sEvent ?w5 ?e = (None, ?w5\<lparr>k8sEvents := k8sEvents w @ [?e]\<rparr>)"
    using nf by (simp add: Create_K8sEvent_def nextFault_none)
  have rec: "Reconcile api w req =
      (Inr \<lparr>Requeue = False, RequeueAfter = 0\<rparr>, ?w5\<lparr>k8sEvents := k8sEvents w @ [?e]\<rparr>)"
    using nc cr cmpl get gett del upd gen cre by (simp add: Reconcile_def)
  have "Phase (Event_Status t) = EventSucceeded \<longrightarrow> ?phase = WorkloadInstanceSucceeded"
    by (simp add: setFinished_def EventSucceeded_def EventFailed_def)
  moreover have "Phase (Event_Status t) = EventFailed \<longrightarrow> ?phase = WorkloadInstanceFailed"
    by (simp add: setFinished_def)
  moreover have "isTerminal ?phase" by (rule setFinished_terminal)
  moreover have "Message ?e = ''pre-deployment checks are finished''"
    by (simp add: generateK8sEvent_def timeNow_def)
  moreover have "Reason ?e = ?phase"
    by (simp add: generateK8sEvent_def timeNow_def)
  moreover have "Reconcile api w req =
                 (Inr \<lparr>Requeue = False, RequeueAfter = 0\<rparr>,
                  w\<lparr>workloadInstances := (workloadInstances w)
                       (req \<mapsto> i\<lparr>Status := (Status i)\<lparr>PreDeploymentPhase := ?phase\<rparr>\<rparr>),
                    events := (events w)
                       ((Namespace (ObjectMeta i), PreDeploymentTaskName (Status i)) := None),
                    k8sEvents := k8sEvents w @ [?e],
                    clockReads := clockReads w + 3\<rparr>)"
    using rec fin by simp
  ultimately show "\<exists>phase finished.
               (Phase (Event_Status t) = EventSucceeded \<longrightarrow> phase = WorkloadInstanceSucceeded) \<and>
               (Phase (Event_Status t) = EventFailed \<longrightarrow> phase = WorkloadInstanceFailed) \<and>
               isTerminal phase \<and>
               Message finished = ''pre-deployment checks are finished'' \<and>
               Reason finished = phase \<and>
               Reconcile api w req =
                 (Inr \<lparr>Requeue = False, RequeueAfter = 0\<rparr>,
                  w\<lparr>workloadInstances := (workloadInstances w)
                       (req \<mapsto> i\<lparr>Status := (Status i)\<lparr>PreDeploymentPhase := phase\<rparr>\<rparr>),
                    events := (events w)
                       ((Namespace (ObjectMeta i), PreDeploymentTaskName (Status i)) := None),
                    k8sEvents := k8sEvents w @ [finished],
                    clockReads := clockReads w + 3\<rparr>)"
    by blast
qed

text \<open>The pass that finds the Check Task of \<open>checkout\<close> failed.\<close>

theorem C8_poll_witness:
  "wellKeyed (cluster (checkoutWith WorkloadInstanceRunning ''checkout-00000000-0'')
      [(''ns'', ''checkout-00000000-0'') \<mapsto> scanTask ''checkout-00000000-0'' EventFailed] []) \<and>
   Event_IsCompleted specApi (scanTask ''checkout-00000000-0'' EventFailed) \<and>
   (\<exists>finished.
      Message finished = ''pre-deployment checks are finished'' \<and>
      Reason finished = WorkloadInstanceFailed \<and>
      Reconcile specApi
        (cluster (checkoutWith WorkloadInstanceRunning ''checkout-00000000-0'')
           [(''ns'', ''checkout-00000000-0'') \<mapsto> scanTask ''checkout-00000000-0'' EventFailed] [])
        (''ns'', ''checkout'') =
      (Inr \<lparr>Requeue = False, RequeueAfter = 0\<rparr>,
       cluster (checkoutWith WorkloadInstanceFailed ''checkout-00000000-0'') Map.empty []
         \<lparr>k8sEvents := [finished], clockReads := 3\<rparr>))"
proof -
  let ?i = "checkoutWith WorkloadInstanceRunning ''checkout-00000000-0''"
  let ?t = "scanTask ''checkout-00000000-0'' EventFailed"
  let ?w = "cluster ?i [(''ns'', ''checkout-00000000-0'') \<mapsto> ?t] []"
  have wk: "wellKeyed ?w" by (rule wellKeyed_cluster_one)
  have nf: "faults ?w = []" by (simp add: cluster_def)
  have stored: "workloadInstances ?w (''ns'', ''checkout'') = Some ?i" by (simp add: cluster_def)
  have nc: "\<not> IsCompleted specApi ?i"
    by (simp add: specApi_def checkoutWith_def isTerminal_def WorkloadInstanceRunning_def
          WorkloadInstanceSucceeded_def WorkloadInstanceFailed_def)
  have cr: "\<not> IsDeploymentCheckNotCreated specApi ?i"
    by (simp add: specApi_def checkoutWith_def WorkloadInstanceRunning_def
          WorkloadInstanceNotStarted_def)
  have task: "events ?w (Namespace (ObjectMeta ?i), PreDeploymentTaskName (Status ?i)) = Some ?t"
    by (simp add: cluster_def checkoutWith_def)
  have cmpl: "Event_IsCompleted specApi ?t" by (simp add: specApi_def scanTask_def)
  have failed: "Phase (Event_Status ?t) = EventFailed" by (simp add: scanTask_def)
  from C8_poll [OF wk nf stored nc cr task] have
    "Event_IsCompleted specApi ?t \<longrightarrow>
       (\<exists>phase finished.
          (Phase (Event_Status ?t) = EventSucceeded \<longrightarrow> phase = WorkloadInstanceSucceeded) \<and>
          (Phase (Event_Status ?t) = EventFailed \<longrightarrow> phase = WorkloadInstanceFailed) \<and>
          isTerminal phase \<and>
          Message finished = ''pre-deployment checks are finished'' \<and>
          Reason finished = phase \<and>
          Reconcile specApi ?w (''ns'', ''checkout'') =
            (Inr \<lparr>Requeue = False, RequeueAfter = 0\<rparr>,
             ?w\<lparr>workloadInstances := (workloadInstances ?w)
                  ((''ns'', ''checkout'') \<mapsto> ?i\<lparr>Status := (Status ?i)\<lparr>PreDeploymentPhase := phase\<rparr>\<rparr>),
                events := (events ?w)
                  ((Namespace (ObjectMeta ?i), PreDeploymentTaskName (Status ?i)) := None),
                k8sEvents := k8sEvents ?w @ [finished],
                clockReads := clockReads ?w + 3\<rparr>))"
    by (rule conjunct2)
  from this [rule_format, OF cmpl] obtain phase finished where
    ph: "Phase (Event_Status ?t) = EventFailed \<longrightarrow> phase = WorkloadInstanceFailed"
    and msg: "Message finished = ''pre-deployment checks are finished''"
    and rsn0: "Reason finished = phase"
    and rec0: "Reconcile specApi ?w (''ns'', ''checkout'') =
            (Inr \<lparr>Requeue = False, RequeueAfter = 0\<rparr>,
             ?w\<lparr>workloadInstances := (workloadInstances ?w)
                  ((''ns'', ''checkout'') \<mapsto> ?i\<lparr>Status := (Status ?i)\<lparr>PreDeploymentPhase := phase\<rparr>\<rparr>),
                events := (events ?w)
                  ((Namespace (ObjectMeta ?i), PreDeploymentTaskName (Status ?i)) := None),
                k8sEvents := k8sEvents ?w @ [finished],
                clockReads := clockReads ?w + 3\<rparr>)"
    by (elim exE conjE)
  from ph failed have phase: "phase = WorkloadInstanceFailed" by (rule mp)
  from rsn0 have rsn: "Reason finished = WorkloadInstanceFailed" unfolding phase .
  from rec0 have rec: "Reconcile specApi ?w (''ns'', ''checkout'') =
       (Inr \<lparr>Requeue = False, RequeueAfter = 0\<rparr>,
        ?w\<lparr>workloadInstances := (workloadInstances ?w)
             ((''ns'', ''checkout'') \<mapsto>
                ?i\<lparr>Status := (Status ?i)\<lparr>PreDeploymentPhase := WorkloadInstanceFailed\<rparr>\<rparr>),
           events := (events ?w)
             ((Namespace (ObjectMeta ?i), PreDeploymentTaskName (Status ?i)) := None),
           k8sEvents := k8sEvents ?w @ [finished],
           clockReads := clockReads ?w + 3\<rparr>)"
    unfolding phase .
  have "?w\<lparr>workloadInstances := (workloadInstances ?w)
             ((''ns'', ''checkout'') \<mapsto>
                ?i\<lparr>Status := (Status ?i)\<lparr>PreDeploymentPhase := WorkloadInstanceFailed\<rparr>\<rparr>),
           events := (events ?w)
             ((Namespace (ObjectMeta ?i), PreDeploymentTaskName (Status ?i)) := None),
           k8sEvents := k8sEvents ?w @ [finished],
           clockReads := clockReads ?w + 3\<rparr> =
        cluster (checkoutWith WorkloadInstanceFailed ''checkout-00000000-0'') Map.empty []
          \<lparr>k8sEvents := [finished], clockReads := 3\<rparr>"
    by (simp add: cluster_def checkoutWith_def)
  with rec have "Reconcile specApi ?w (''ns'', ''checkout'') =
      (Inr \<lparr>Requeue = False, RequeueAfter = 0\<rparr>,
       cluster (checkoutWith WorkloadInstanceFailed ''checkout-00000000-0'') Map.empty []
         \<lparr>k8sEvents := [finished], clockReads := 3\<rparr>)"
    by (simp only:)
  with msg rsn have "\<exists>finished.
      Message finished = ''pre-deployment checks are finished'' \<and>
      Reason finished = WorkloadInstanceFailed \<and>
      Reconcile specApi ?w (''ns'', ''checkout'') =
      (Inr \<lparr>Requeue = False, RequeueAfter = 0\<rparr>,
       cluster (checkoutWith WorkloadInstanceFailed ''checkout-00000000-0'') Map.empty []
         \<lparr>k8sEvents := [finished], clockReads := 3\<rparr>)"
    by (intro exI [of _ finished] conjI)
  with wk cmpl show ?thesis by (intro conjI)
qed

text \<open>
  C9. The record built by \<^verbatim>\<open>generateK8sEvent\<close> refers to the WorkloadInstance by kind,
  namespace and name, has the phase string as its reason, the message
  "pre-deployment checks are " followed by the event type, the type "Normal", the
  instance's annotations, and three timestamps that are the readings of the clock taken
  while the record is built (one reading for each, in the order event time, first-seen,
  last-seen). A pass emits at most one such record, for "started" or for "finished",
  built from the fetched instance.
\<close>

theorem C9_audit_event:
  fixes i :: KeptnWorkloadInstance
  shows "InvolvedObject (fst (generateK8sEvent w i eventType)) =
           \<lparr> Ref_Kind = Kind i, Ref_Namespace = Namespace (ObjectMeta i),
             Ref_Name = Name (ObjectMeta i) \<rparr> \<and>
         Reason (fst (generateK8sEvent w i eventType)) = PreDeploymentPhase (Status i) \<and>
         Message (fst (generateK8sEvent w i eventType)) =
           ''pre-deployment checks are '' @ eventType \<and>
         Type (fst (generateK8sEvent w i eventType)) = ''Normal'' \<and>
         Annotations (K8s_ObjectMeta (fst (generateK8sEvent w i eventType))) =
           Annotations (ObjectMeta i) \<and>
         EventTime (fst (generateK8sEvent w i eventType)) = clock w (clockReads w) \<and>
         FirstTimestamp (fst (generateK8sEvent w i eventType)) = clock w (clockReads w + 1) \<and>
         LastTimestamp (fst (generateK8sEvent w i eventType)) = clock w (clockReads w + 2) \<and>
         clockReads (snd (generateK8sEvent w i eventType)) = clockReads w + 3 \<and>
         (Reconcile api w req = (r, w') \<longrightarrow>
            k8sEvents w' = k8sEvents w \<or>
            (\<exists>stored j ty.
               workloadInstances w req = Some stored \<and>
               Kind j = Kind stored \<and> ObjectMeta j = ObjectMeta stored \<and>
               (ty = ''started'' \<or> ty = ''finished'') \<and>
               k8sEvents w' = k8sEvents w @ [fst (generateK8sEvent w j ty)]))"
proof -
  have fields: "InvolvedObject (fst (generateK8sEvent w i eventType)) =
           \<lparr> Ref_Kind = Kind i, Ref_Namespace = Namespace (ObjectMeta i),
             Ref_Name = Name (ObjectMeta i) \<rparr> \<and>
         Reason (fst (generateK8sEvent w i eventType)) = PreDeploymentPhase (Status i) \<and>
         Message (fst (generateK8sEvent w i eventType)) =
           ''pre-deployment checks are '' @ eventType \<and>
         Type (fst (generateK8sEvent w i eventType)) = ''Normal'' \<and>
         Annotations (K8s_ObjectMeta (fst (generateK8sEvent w i eventType))) =
           Annotations (ObjectMeta i)"
    by (simp add: generateK8sEvent_def timeNow_def)
  have times: "EventTime (fst (generateK8sEvent w i eventType)) = clock w (clockReads w) \<and>
         FirstTimestamp (fst (generateK8sEvent w i eventType)) = clock w (clockReads w + 1) \<and>
         LastTimestamp (fst (generateK8sEvent w i eventType)) = clock w (clockReads w + 2) \<and>
         clockReads (snd (generateK8sEvent w i eventType)) = clockReads w + 3"
    by (simp add: generateK8sEvent_def timeNow_def numeral_2_eq_2 numeral_3_eq_3)
  have emitted: "k8sEvents w' = k8sEvents w \<or>
            (\<exists>stored j ty.
               workloadInstances w req = Some stored \<and>
               Kind j = Kind stored \<and> ObjectMeta j = ObjectMeta stored \<and>
               (ty = ''started'' \<or> ty = ''finished'') \<and>
               k8sEvents w' = k8sEvents w @ [fst (generateK8sEvent w j ty)])"
    if rec: "Reconcile api w req = (r, w')"
    using Reconcile_k8sEvents [OF rec]
  proof (elim disjE exE conjE)
    assume "k8sEvents w' = k8sEvents w"
    then show ?thesis by simp
  next
    fix s nm
    assume "workloadInstances w req = Some s"
      and "k8sEvents w' = k8sEvents w @ [fst (generateK8sEvent w (setStarted s nm) ''started'')]"
    moreover have "Kind (setStarted s nm) = Kind s \<and> ObjectMeta (setStarted s nm) = ObjectMeta s"
      by (simp add: setStarted_def)
    ultimately show ?thesis by blast
  next
    fix s t
    assume "workloadInstances w req = Some s"
      and "k8sEvents w' = k8sEvents w @ [fst (generateK8sEvent w (setFinished s t) ''finished'')]"
    moreover have "Kind (setFinished s t) = Kind s \<and> ObjectMeta (setFinished s t) = ObjectMeta s"
      by (simp add: setFinished_def)
    ultimately show ?thesis by blast
  qed
  from fields times emitted show ?thesis by blast
qed

text \<open>The "started" record of \<open>checkout\<close>, with the clock at 1000.\<close>

theorem C9_audit_event_witness:
  "Reconcile specApi
     (cluster (checkoutWith WorkloadInstanceNotStarted '''') Map.empty []) (''ns'', ''checkout'') =
   (fst (Reconcile specApi
     (cluster (checkoutWith WorkloadInstanceNotStarted '''') Map.empty []) (''ns'', ''checkout'')),
    snd (Reconcile specApi
     (cluster (checkoutWith WorkloadInstanceNotStarted '''') Map.empty []) (''ns'', ''checkout''))) \<and>
   Message (fst (generateK8sEvent
     (cluster (checkoutWith WorkloadInstanceNotStarted '''') Map.empty [])
     (checkoutWith WorkloadInstanceRunning ''checkout-00000000-0'') ''started'')) =
     ''pre-deployment checks are started'' \<and>
   Reason (fst (generateK8sEvent
     (cluster (checkoutWith WorkloadInstanceNotStarted '''') Map.empty [])
     (checkoutWith WorkloadInstanceRunning ''checkout-00000000-0'') ''started'')) =
     WorkloadInstanceRunning \<and>
   EventTime (fst (generateK8sEvent
     (cluster (checkoutWith WorkloadInstanceNotStarted '''') Map.empty [])
     (checkoutWith WorkloadInstanceRunning ''checkout-00000000-0'') ''started'')) = 1000 \<and>
   LastTimestamp (fst (generateK8sEvent
     (cluster (checkoutWith WorkloadInstanceNotStarted '''') Map.empty [])
     (checkoutWith WorkloadInstanceRunning ''checkout-00000000-0'') ''started'')) = 1002 \<and>
   (k8sEvents (snd (Reconcile specApi
      (cluster (checkoutWith WorkloadInstanceNotStarted '''') Map.empty []) (''ns'', ''checkout''))) =
      k8sEvents (cluster (checkoutWith WorkloadInstanceNotStarted '''') Map.empty []) \<or>
    (\<exists>stored j ty.
       workloadInstances (cluster (checkoutWith WorkloadInstanceNotStarted '''') Map.empty [])
         (''ns'', ''checkout'') = Some stored \<and>
       Kind j = Kind stored \<and> ObjectMeta j = ObjectMeta stored \<and>
       (ty = ''started'' \<or> ty = ''finished'') \<and>
       k8sEvents (snd (Reconcile specApi
         (cluster (checkoutWith WorkloadInstanceNotStarted '''') Map.empty [])
         (''ns'', ''checkout''))) =
       k8sEvents (cluster (checkoutWith WorkloadInstanceNotStarted '''') Map.empty []) @
         [fst (generateK8sEvent
                (cluster (checkoutWith WorkloadInstanceNotStarted '''') Map.empty []) j ty)]))"
proof -
  let ?w = "cluster (checkoutWith WorkloadInstanceNotStarted '''') Map.empty []"
  let ?i = "checkoutWith WorkloadInstanceRunning ''checkout-00000000-0''"
  have rec: "Reconcile specApi ?w (''ns'', ''checkout'') =
      (fst (Reconcile specApi ?w (''ns'', ''checkout'')),
       snd (Reconcile specApi ?w (''ns'', ''checkout'')))" by simp
  have clk: "clock ?w (clockReads ?w) = 1000" "clock ?w (clockReads ?w + 2) = 1002"
    by (simp_all add: cluster_def)
  have ph: "PreDeploymentPhase (Status ?i) = WorkloadInstanceRunning" by (simp add: checkoutWith_def)
  note inst = C9_audit_event [of ?w ?i "''started''" specApi "(''ns'', ''checkout'')"
      "fst (Reconcile specApi ?w (''ns'', ''checkout''))"
      "snd (Reconcile specApi ?w (''ns'', ''checkout''))"]
  from inst have "Message (fst (generateK8sEvent ?w ?i ''started'')) =
      ''pre-deployment checks are '' @ ''started''" by (elim conjE)
  then have msg: "Message (fst (generateK8sEvent ?w ?i ''started'')) =
      ''pre-deployment checks are started''" by simp
  from inst have rsn: "Reason (fst (generateK8sEvent ?w ?i ''started'')) = WorkloadInstanceRunning"
    unfolding ph by (elim conjE)
  from inst have t1: "EventTime (fst (generateK8sEvent ?w ?i ''started'')) = 1000"
    unfolding clk by (elim conjE)
  from inst have t3: "LastTimestamp (fst (generateK8sEvent ?w ?i ''started'')) = 1002"
    unfolding clk by (elim conjE)
  from inst have "Reconcile specApi ?w (''ns'', ''checkout'') =
      (fst (Reconcile specApi ?w (''ns'', ''checkout'')),
       snd (Reconcile specApi ?w (''ns'', ''checkout''))) \<longrightarrow>
    k8sEvents (snd (Reconcile specApi ?w (''ns'', ''checkout''))) = k8sEvents ?w \<or>
    (\<exists>stored j ty.
       workloadInstances ?w (''ns'', ''checkout'') = Some stored \<and>
       Kind j = Kind stored \<and> ObjectMeta j = ObjectMeta stored \<and>
       (ty = ''started'' \<or> ty = ''finished'') \<and>
       k8sEvents (snd (Reconcile specApi ?w (''ns'', ''checkout''))) =
       k8sEvents ?w @ [fst (generateK8sEvent ?w j ty)])"
    by (elim conjE)
  with rec have emit: "k8sEvents (snd (Reconcile specApi ?w (''ns'', ''checkout''))) = k8sEvents ?w \<or>
    (\<exists>stored j ty.
       workloadInstances ?w (''ns'', ''checkout'') = Some stored \<and>
       Kind j = Kind stored \<and> ObjectMeta j = ObjectMeta stored \<and>
       (ty = ''started'' \<or> ty = ''finished'') \<and>
       k8sEvents (snd (Reconcile specApi ?w (''ns'', ''checkout''))) =
       k8sEvents ?w @ [fst (generateK8sEvent ?w j ty)])"
    by (rule mp [rotated])
  from rec msg rsn t1 t3 emit show ?thesis by (intro conjI)
qed

text \<open>
  C10. A pass neither adds nor removes a WorkloadInstance, and a stored WorkloadInstance
  differs after the pass at most in its pre-deployment phase and its pre-deployment task
  name: kind, metadata with the annotations, spec and the post-deployment status fields
  are as before.
\<close>

theorem C10_frame:
  assumes "wellKeyed w" and "Reconcile api w req = (r, w')"
  shows "(workloadInstances w k = None \<longrightarrow> workloadInstances w' k = None) \<and>
    (\<forall>i. workloadInstances w k = Some i \<longrightarrow>
       (\<exists>phase taskName. workloadInstances w' k =
          Some (i\<lparr>Status := (Status i)\<lparr>PreDeploymentPhase := phase,
                                         PreDeploymentTaskName := taskName\<rparr>\<rparr>)))"
proof
  show "workloadInstances w k = None \<longrightarrow> workloadInstances w' k = None"
    using Reconcile_instances_meta [OF assms] by (auto split: if_splits)
  show "\<forall>i. workloadInstances w k = Some i \<longrightarrow>
       (\<exists>phase taskName. workloadInstances w' k =
          Some (i\<lparr>Status := (Status i)\<lparr>PreDeploymentPhase := phase,
                                         PreDeploymentTaskName := taskName\<rparr>\<rparr>))"
    using Reconcile_status [OF assms] by blast
qed

text \<open>The pass that finds the Check Task of \<open>checkout\<close> succeeded.\<close>

theorem C10_frame_witness:
  "wellKeyed (cluster (checkoutWith WorkloadInstanceRunning ''checkout-00000000-0'')
      [(''ns'', ''checkout-00000000-0'') \<mapsto> scanTask ''checkout-00000000-0'' EventSucceeded] []) \<and>
   (\<exists>phase taskName.
      workloadInstances
        (snd (Reconcile specApi
           (cluster (checkoutWith WorkloadInstanceRunning ''checkout-00000000-0'')
              [(''ns'', ''checkout-00000000-0'') \<mapsto> scanTask ''checkout-00000000-0'' EventSucceeded] [])
           (''ns'', ''checkout''))) (''ns'', ''checkout'') =
      Some ((checkoutWith WorkloadInstanceRunning ''checkout-00000000-0'')
        \<lparr>Status := (Status (checkoutWith WorkloadInstanceRunning ''checkout-00000000-0''))
           \<lparr>PreDeploymentPhase := phase, PreDeploymentTaskName := taskName\<rparr>\<rparr>))"
proof -
  let ?w = "cluster (checkoutWith WorkloadInstanceRunning ''checkout-00000000-0'')
      [(''ns'', ''checkout-00000000-0'') \<mapsto> scanTask ''checkout-00000000-0'' EventSucceeded] []"
  have wk: "wellKeyed ?w" by (rule wellKeyed_cluster_one)
  have rec: "Reconcile specApi ?w (''ns'', ''checkout'') =
      (fst (Reconcile specApi ?w (''ns'', ''checkout'')),
       snd (Reconcile specApi ?w (''ns'', ''checkout'')))" by simp
  have stored: "workloadInstances ?w (''ns'', ''checkout'') =
      Some (checkoutWith WorkloadInstanceRunning ''checkout-00000000-0'')"
    by (simp add: cluster_def)
  from C10_frame [OF wk rec, of "(''ns'', ''checkout'')"] stored wk show ?thesis by blast
qed

end
